theory Spec2Isabelle
  imports Complex_Main
begin

section \<open>Python values\<close>

text \<open>
  A Python \<open>str\<close> is a sequence of Unicode code points and \<open>len\<close> counts code points,
  so a string is a list of code points; \<open>ustr\<close> reads an ASCII literal.
\<close>

type_synonym codepoint = nat
type_synonym pystr = "codepoint list"

definition ustr :: "string \<Rightarrow> pystr" where
  "ustr s = map of_char s"

text \<open>
  The values \<open>json.loads\<close> produces from JSON: \<open>None\<close>, \<open>bool\<close>, \<open>int\<close>, \<open>float\<close>
  (a finite float is a rational; the sign of zero is not kept, and NaN and the
  infinities, which are not JSON, are left out), \<open>str\<close>, \<open>list\<close> and \<open>dict\<close> with
  string keys. A dict is the list of its items in insertion order; \<open>map_of\<close> reads it.
\<close>

datatype pyval =
    PNone
  | PBool bool
  | PInt int
  | PFloat rat
  | PStr pystr
  | PList "pyval list"
  | PDict "(pystr \<times> pyval) list"

text \<open>Truth value testing (\<open>if x:\<close>, \<open>not x\<close>, \<open>x or y\<close>).\<close>

fun truthy :: "pyval \<Rightarrow> bool" where
  "truthy PNone = False"
| "truthy (PBool b) = b"
| "truthy (PInt i) = (i \<noteq> 0)"
| "truthy (PFloat r) = (r \<noteq> 0)"
| "truthy (PStr s) = (s \<noteq> [])"
| "truthy (PList xs) = (xs \<noteq> [])"
| "truthy (PDict kvs) = (kvs \<noteq> [])"

text \<open>\<open>isinstance(x, dict)\<close> and \<open>isinstance(x, str)\<close>.\<close>

fun is_dict :: "pyval \<Rightarrow> bool" where
  "is_dict (PDict kvs) = True"
| "is_dict _ = False"

fun is_str :: "pyval \<Rightarrow> bool" where
  "is_str (PStr s) = True"
| "is_str _ = False"

text \<open>The exceptions the modelled code can meet.\<close>

datatype error =
    AttributeError
  | TypeError
  | SliceError
  | JSONDecodeError
  | ConnectionError

section \<open>The result envelope\<close>

text \<open>
  The envelope is read with \<open>getattr(obj, name, None)\<close> only, so an attribute is an
  option: \<open>None\<close> when the object has no such attribute. \<open>content\<close> is \<open>None\<close> when the
  attribute is missing or holds Python's \<open>None\<close>, else the sequence of items (the
  spec's RawResult: an ordered sequence of items, each optionally carrying a text).
\<close>

record item =
  item_text :: "pyval option"

record raw_result =
  structuredContent :: "pyval option"
  content :: "item list option"
  isError :: bool

definition getattr :: "pyval option \<Rightarrow> pyval \<Rightarrow> pyval" where
  "getattr attr dflt = (case attr of None \<Rightarrow> dflt | Some v \<Rightarrow> v)"

section \<open>Result Extractor\<close>

text \<open>
  \<open>_extract_inner_json_from_search_api_result\<close> (jc-cli.py and appv1.py, same code).
  \<open>json.loads\<close> is the standard library's: it is the parameter \<open>loads\<close>, which returns
  the parsed value or raises. The loop is \<open>scan_content\<close>; the \<open>try\<close> around
  \<open>json.loads\<close> catches every \<open>Exception\<close> and goes on with the next item.
\<close>

fun scan_content :: "(pystr \<Rightarrow> error + pyval) \<Rightarrow> item list \<Rightarrow> error + pyval option" where
  "scan_content loads [] = Inr None"
| "scan_content loads (it # rest) =
     (case getattr (item_text it) PNone of
        PStr text_val \<Rightarrow>
          (case loads text_val of
             Inl e \<Rightarrow> scan_content loads rest
           | Inr inner \<Rightarrow> if is_dict inner then Inr (Some inner) else scan_content loads rest)
      | _ \<Rightarrow> scan_content loads rest)"

definition extract_inner_json_from_search_api_result ::
  "(pystr \<Rightarrow> error + pyval) \<Rightarrow> raw_result \<Rightarrow> error + pyval option" where
  "extract_inner_json_from_search_api_result loads result =
     (let structured = getattr (structuredContent result) PNone in
      if is_dict structured then Inr (Some structured)
      else
        (case content result of
           None \<Rightarrow> Inr None
         | Some [] \<Rightarrow> Inr None
         | Some items \<Rightarrow> scan_content loads items))"

section \<open>Python operations used by the formatter\<close>

text \<open>An exception propagates: the rest of the computation is skipped.\<close>

definition bindE :: "error + 'a \<Rightarrow> ('a \<Rightarrow> error + 'b) \<Rightarrow> error + 'b" where
  "bindE m f = (case m of Inl e \<Rightarrow> Inl e | Inr x \<Rightarrow> f x)"

text \<open>\<open>obj.get(key, default)\<close>: only a dict has the method.\<close>

definition py_get :: "pyval \<Rightarrow> pystr \<Rightarrow> pyval \<Rightarrow> error + pyval" where
  "py_get obj key dflt =
     (case obj of
        PDict kvs \<Rightarrow> Inr (case map_of kvs key of None \<Rightarrow> dflt | Some v \<Rightarrow> v)
      | _ \<Rightarrow> Inl AttributeError)"

text \<open>\<open>a or b\<close>.\<close>

definition py_or :: "pyval \<Rightarrow> pyval \<Rightarrow> pyval" where
  "py_or a b = (if truthy a then a else b)"

text \<open>\<open>len(x)\<close>: numbers, booleans and \<open>None\<close> have no length.\<close>

definition py_len :: "pyval \<Rightarrow> error + nat" where
  "py_len x =
     (case x of
        PList xs \<Rightarrow> Inr (length xs)
      | PStr s \<Rightarrow> Inr (length s)
      | PDict kvs \<Rightarrow> Inr (length kvs)
      | _ \<Rightarrow> Inl TypeError)"

text \<open>
  \<open>x[:n]\<close>: a list and a string are cut; a dict takes the slice for a key, which raises
  (\<open>TypeError\<close>, unhashable, up to Python 3.11 and \<open>KeyError\<close> from 3.12: \<open>SliceError\<close>
  stands for both); the other values are not subscriptable.
\<close>

definition py_slice_to :: "pyval \<Rightarrow> nat \<Rightarrow> error + pyval" where
  "py_slice_to x n =
     (case x of
        PList xs \<Rightarrow> Inr (PList (take n xs))
      | PStr s \<Rightarrow> Inr (PStr (take n s))
      | PDict kvs \<Rightarrow> Inl SliceError
      | _ \<Rightarrow> Inl TypeError)"

text \<open>
  \<open>for v in x\<close>: the elements of a list, the characters of a string, the keys of a
  dict; the other values are not iterable.
\<close>

definition py_iter :: "pyval \<Rightarrow> error + pyval list" where
  "py_iter x =
     (case x of
        PList xs \<Rightarrow> Inr xs
      | PStr s \<Rightarrow> Inr (map (\<lambda>c. PStr [c]) s)
      | PDict kvs \<Rightarrow> Inr (map (\<lambda>kv. PStr (fst kv)) kvs)
      | _ \<Rightarrow> Inl TypeError)"

text \<open>
  \<open>a + b\<close> where one operand is a string, as in \<open>fname + " " + lname\<close>: the
  concatenation when both are strings, else \<open>TypeError\<close>.
\<close>

definition py_add :: "pyval \<Rightarrow> pyval \<Rightarrow> error + pyval" where
  "py_add a b =
     (case a of
        PStr x \<Rightarrow> (case b of PStr y \<Rightarrow> Inr (PStr (x @ y)) | _ \<Rightarrow> Inl TypeError)
      | _ \<Rightarrow> Inl TypeError)"

definition the_str :: "pyval \<Rightarrow> pystr" where
  "the_str v = (case v of PStr s \<Rightarrow> s | _ \<Rightarrow> [])"

text \<open>\<open>s.strip()\<close> removes the characters for which \<open>str.isspace\<close> holds at both ends.\<close>

definition isspace :: "codepoint \<Rightarrow> bool" where
  "isspace c =
     ((9 \<le> c \<and> c \<le> 13) \<or> (28 \<le> c \<and> c \<le> 32) \<or> c = 133 \<or> c = 160 \<or> c = 5760 \<or>
      (8192 \<le> c \<and> c \<le> 8202) \<or> c = 8232 \<or> c = 8233 \<or> c = 8239 \<or> c = 8287 \<or> c = 12288)"

definition strip :: "pystr \<Rightarrow> pystr" where
  "strip s = rev (dropWhile isspace (rev (dropWhile isspace s)))"

text \<open>\<open>sep.join(parts)\<close> on strings.\<close>

fun join :: "pystr \<Rightarrow> pystr list \<Rightarrow> pystr" where
  "join sep [] = []"
| "join sep [x] = x"
| "join sep (x # y # ys) = x @ sep @ join sep (y # ys)"

text \<open>\<open>sep.join(xs)\<close> on arbitrary values: an element that is not a string raises.\<close>

definition join_vals :: "pystr \<Rightarrow> pyval list \<Rightarrow> error + pystr" where
  "join_vals sep xs =
     (if list_all is_str xs then Inr (join sep (map the_str xs)) else Inl TypeError)"

text \<open>\<open>str(n)\<close> for an integer: its decimal digits.\<close>

fun str_nat :: "nat \<Rightarrow> pystr" where
  "str_nat n = (if n < 10 then [48 + n] else str_nat (n div 10) @ [48 + n mod 10])"

declare str_nat.simps [simp del]

definition str_int :: "int \<Rightarrow> pystr" where
  "str_int i = (if i < 0 then 45 # str_nat (nat (- i)) else str_nat (nat i))"

text \<open>
  \<open>str(v)\<close>, which is what an f-string field \<open>{v}\<close> inserts. The text of a float, a
  list or a dict is Python's \<open>repr\<close> machinery: it is the parameter \<open>repr\<close>.
\<close>

definition py_str :: "(pyval \<Rightarrow> pystr) \<Rightarrow> pyval \<Rightarrow> pystr" where
  "py_str repr v =
     (case v of
        PStr s \<Rightarrow> s
      | PNone \<Rightarrow> ustr ''None''
      | PBool b \<Rightarrow> (if b then ustr ''True'' else ustr ''False'')
      | PInt i \<Rightarrow> str_int i
      | _ \<Rightarrow> repr v)"

section \<open>The field mapping of a row\<close>

text \<open>
  \<open>field_map\<close> is a dict built by the code; its keys are whatever the \<open>field\<close> entries
  hold. A list or a dict is not hashable. Keys are compared with \<open>==\<close>: numbers and
  booleans by value (\<open>True == 1 == 1.0\<close>), the rest structurally.
\<close>

fun hashable :: "pyval \<Rightarrow> bool" where
  "hashable (PList xs) = False"
| "hashable (PDict kvs) = False"
| "hashable _ = True"

fun num_val :: "pyval \<Rightarrow> rat option" where
  "num_val (PBool b) = Some (if b then 1 else 0)"
| "num_val (PInt i) = Some (of_int i)"
| "num_val (PFloat r) = Some r"
| "num_val _ = None"

definition key_eq :: "pyval \<Rightarrow> pyval \<Rightarrow> bool" where
  "key_eq a b =
     (case num_val a of
        Some x \<Rightarrow> (case num_val b of Some y \<Rightarrow> x = y | None \<Rightarrow> False)
      | None \<Rightarrow> (case num_val b of Some y \<Rightarrow> False | None \<Rightarrow> a = b))"

text \<open>
  \<open>d[k] = v\<close>: an existing key keeps its place (and its first spelling) and takes the
  new value; a new key goes to the end. \<open>d.get(k, default)\<close> reads it.
\<close>

fun dict_set :: "(pyval \<times> pyval) list \<Rightarrow> pyval \<Rightarrow> pyval \<Rightarrow> (pyval \<times> pyval) list" where
  "dict_set [] k v = [(k, v)]"
| "dict_set ((k', v') # d) k v =
     (if key_eq k' k then (k', v) # d else (k', v') # dict_set d k v)"

fun dict_get :: "(pyval \<times> pyval) list \<Rightarrow> pyval \<Rightarrow> pyval \<Rightarrow> pyval" where
  "dict_get [] k dflt = dflt"
| "dict_get ((k', v') # d) k dflt = (if key_eq k' k then v' else dict_get d k dflt)"

text \<open>
  The loop \<open>for f in fields_list\<close> (jc-cli.py 122-126, appv1.py 177-181): an entry
  whose name is falsy is passed over; a truthy name is stored, which hashes it.
\<close>

fun reduce_fields ::
  "(pyval \<times> pyval) list \<Rightarrow> pyval list \<Rightarrow> error + (pyval \<times> pyval) list" where
  "reduce_fields field_map [] = Inr field_map"
| "reduce_fields field_map (f # fs) =
     bindE (py_get f (ustr ''field'') PNone) (\<lambda>fname.
     bindE (py_get f (ustr ''value'') PNone) (\<lambda>fval.
       if truthy fname then
         (if hashable fname then reduce_fields (dict_set field_map fname fval) fs
          else Inl TypeError)
       else reduce_fields field_map fs))"

text \<open>
  \<open>fields_list = row.get("fields", []) or []\<close> followed by the loop (jc-cli.py
  120-126, appv1.py 174-181).
\<close>

definition row_field_map :: "pyval \<Rightarrow> error + (pyval \<times> pyval) list" where
  "row_field_map row =
     bindE (py_get row (ustr ''fields'') (PList [])) (\<lambda>fl.
     bindE (py_iter (py_or fl (PList []))) (\<lambda>fields_list.
       reduce_fields [] fields_list))"

text \<open>A loop that appends one line per element and stops at the first exception.\<close>

fun map_result :: "('a \<Rightarrow> error + 'b) \<Rightarrow> 'a list \<Rightarrow> error + 'b list" where
  "map_result f [] = Inr []"
| "map_result f (x # xs) =
     bindE (f x) (\<lambda>y. bindE (map_result f xs) (\<lambda>ys. Inr (y # ys)))"

section \<open>Result Formatter, command line (jc-cli.py)\<close>

text \<open>
  The body of the row loop after the field mapping is built (jc-cli.py 128-150, and
  appv1.py 183-210 below). The test \<open>username or email or uid\<close> is \<open>is_user_row\<close>;
  its two branches are the identity line and the generic line.
\<close>

definition is_user_row :: "(pyval \<times> pyval) list \<Rightarrow> bool" where
  "is_user_row field_map =
     (let email = dict_get field_map (PStr (ustr ''user.email'')) PNone;
          username = dict_get field_map (PStr (ustr ''user.username'')) PNone;
          uid = dict_get field_map (PStr (ustr ''user.id'')) PNone
      in truthy username \<or> truthy email \<or> truthy uid)"

definition cli_identity_line ::
  "(pyval \<Rightarrow> pystr) \<Rightarrow> (pyval \<times> pyval) list \<Rightarrow> error + pystr" where
  "cli_identity_line repr field_map =
     (let fname = dict_get field_map (PStr (ustr ''user.first_name'')) (PStr []);
          lname = dict_get field_map (PStr (ustr ''user.last_name'')) (PStr []);
          email = dict_get field_map (PStr (ustr ''user.email'')) PNone;
          username = dict_get field_map (PStr (ustr ''user.username'')) PNone;
          uid = dict_get field_map (PStr (ustr ''user.id'')) PNone
      in
        bindE (py_add fname (PStr (ustr '' ''))) (\<lambda>fname_sp.
        bindE (py_add fname_sp lname) (\<lambda>full.
          let pretty_name = strip (the_str full);
              parts =
                (if truthy username then [py_str repr username] else []) @
                (if pretty_name \<noteq> [] then [pretty_name] else []) @
                (if truthy email then [ustr ''<'' @ py_str repr email @ ustr ''>''] else []) @
                (if truthy uid then [ustr ''id='' @ py_str repr uid] else [])
          in Inr (ustr '' - '' @ join (ustr '' | '') parts))))"

definition cli_generic_line :: "(pyval \<Rightarrow> pystr) \<Rightarrow> (pyval \<times> pyval) list \<Rightarrow> pystr" where
  "cli_generic_line repr field_map =
     ustr '' - '' @
     join (ustr ''; '')
       (map (\<lambda>kv. py_str repr (fst kv) @ ustr ''='' @ py_str repr (snd kv)) field_map)"

definition cli_row_text :: "(pyval \<Rightarrow> pystr) \<Rightarrow> (pyval \<times> pyval) list \<Rightarrow> error + pystr" where
  "cli_row_text repr field_map =
     (if is_user_row field_map then cli_identity_line repr field_map
      else Inr (cli_generic_line repr field_map))"

definition cli_row_line :: "(pyval \<Rightarrow> pystr) \<Rightarrow> pyval \<Rightarrow> error + pystr" where
  "cli_row_line repr row = bindE (row_field_map row) (cli_row_text repr)"

text \<open>
  The lines of the explanation, rationale and query time sections (jc-cli.py 98-110).
\<close>

definition cli_head_lines :: "(pyval \<Rightarrow> pystr) \<Rightarrow> pyval \<Rightarrow> pyval \<Rightarrow> pyval \<Rightarrow> pyval list" where
  "cli_head_lines repr explanation rationale qt =
     (if truthy explanation then [PStr (ustr ''Explanation:''), explanation, PStr []]
      else []) @
     (if truthy rationale
      then [PStr (ustr ''Why this query: '' @ py_str repr rationale), PStr []]
      else []) @
     (if qt \<noteq> PNone then [PStr (ustr ''Query time: '' @ py_str repr qt), PStr []]
      else [])"

definition cli_results_header :: "nat \<Rightarrow> pystr" where
  "cli_results_header n = ustr ''Results (showing up to '' @ str_nat (min n 20) @ ustr ''):''"

definition cli_more_note :: "nat \<Rightarrow> pystr" where
  "cli_more_note n = ustr ''... plus '' @ str_nat (n - 20) @ ustr '' more''"

text \<open>
  \<open>_format_search_api_results\<close> of jc-cli.py. \<open>lines\<close> holds values, since the
  explanation is appended as it is; the final \<open>"\n".join(lines)\<close> raises when it is
  not a string.
\<close>

definition cli_format_search_api_results :: "(pyval \<Rightarrow> pystr) \<Rightarrow> pyval \<Rightarrow> error + pystr" where
  "cli_format_search_api_results repr inner =
     bindE (py_get inner (ustr ''explanation'') PNone) (\<lambda>explanation.
     bindE (py_get inner (ustr ''rationale'') PNone) (\<lambda>rationale.
     bindE (py_get inner (ustr ''query_result'') (PDict [])) (\<lambda>qr.
     let query_result = py_or qr (PDict []) in
     bindE (py_get query_result (ustr ''metadata'') (PDict [])) (\<lambda>md.
     let metadata = py_or md (PDict []) in
     bindE (py_get query_result (ustr ''results'') (PList [])) (\<lambda>rs.
     let results = py_or rs (PList []) in
     bindE (py_get metadata (ustr ''queryTime'') PNone) (\<lambda>qt.
     let lines2 = cli_head_lines repr explanation rationale qt in
       if \<not> truthy results then
         join_vals [10] (lines2 @ [PStr (ustr ''No results found.'')])
       else
         bindE (py_len results) (\<lambda>n.
         let lines3 = lines2 @ [PStr (cli_results_header n)] in
         bindE (py_slice_to results 20) (\<lambda>sl.
         bindE (py_iter sl) (\<lambda>rows.
         bindE (map_result (cli_row_line repr) rows) (\<lambda>row_lines.
         let lines4 =
               lines3 @ map PStr row_lines @
               (if n > 20 then [PStr (cli_more_note n)] else [])
         in join_vals [10] lines4))))))))))"

text \<open>
  \<open>format_for_cli\<close>. The raw dump of the envelope (\<open>model_dump_json\<close>, or \<open>str\<close>
  when that raises) is the caller's text \<open>raw\<close>.
\<close>

definition format_for_cli ::
  "(pystr \<Rightarrow> error + pyval) \<Rightarrow> (pyval \<Rightarrow> pystr) \<Rightarrow> pystr \<Rightarrow> pystr \<Rightarrow> raw_result \<Rightarrow>
   error + pystr" where
  "format_for_cli loads repr raw user_query result_obj =
     bindE (extract_inner_json_from_search_api_result loads result_obj) (\<lambda>inner.
       case inner of
         None \<Rightarrow>
           Inr (ustr ''Query: '' @ user_query @ [10, 10] @ ustr ''Raw search_api result:'' @
                [10] @ raw)
       | Some inner_json \<Rightarrow>
           bindE (cli_format_search_api_results repr inner_json) (\<lambda>body.
             Inr (ustr ''Query: '' @ user_query @ [10, 10] @ body)))"

section \<open>Result Formatter, chat (appv1.py)\<close>

text \<open>
  The literals of appv1.py hold four code points beyond ASCII: the bullet U+2022 (8226),
  the en dash U+2013 (8211), the ellipsis U+2026 (8230) and the hourglass U+23F3 (9203).
  The body of the row loop after the field mapping is built (appv1.py 183-210).
\<close>

definition slack_identity_line ::
  "(pyval \<Rightarrow> pystr) \<Rightarrow> (pyval \<times> pyval) list \<Rightarrow> error + pystr" where
  "slack_identity_line repr field_map =
     (let fname = dict_get field_map (PStr (ustr ''user.first_name'')) (PStr []);
          lname = dict_get field_map (PStr (ustr ''user.last_name'')) (PStr []);
          email = dict_get field_map (PStr (ustr ''user.email'')) PNone;
          username = dict_get field_map (PStr (ustr ''user.username'')) PNone;
          uid = dict_get field_map (PStr (ustr ''user.id'')) PNone
      in
        bindE (py_add fname (PStr (ustr '' ''))) (\<lambda>fname_sp.
        bindE (py_add fname_sp lname) (\<lambda>full.
          let pretty_name = strip (the_str full);
              parts =
                (if truthy username then [ustr ''`'' @ py_str repr username @ ustr ''`'']
                 else []) @
                (if pretty_name \<noteq> [] then [pretty_name] else []) @
                (if truthy email then [ustr ''<'' @ py_str repr email @ ustr ''>''] else []) @
                (if truthy uid then [ustr ''_id: `'' @ py_str repr uid @ ustr ''`_''] else [])
          in Inr ([8226, 32] @ join [32, 8211, 32] parts))))"

definition slack_generic_line :: "(pyval \<Rightarrow> pystr) \<Rightarrow> (pyval \<times> pyval) list \<Rightarrow> pystr" where
  "slack_generic_line repr field_map =
     [8226, 32] @
     join (ustr ''; '')
       (map (\<lambda>kv. ustr ''*'' @ py_str repr (fst kv) @ ustr ''*: `'' @
                   py_str repr (snd kv) @ ustr ''`'')
          field_map)"

definition slack_row_text :: "(pyval \<Rightarrow> pystr) \<Rightarrow> (pyval \<times> pyval) list \<Rightarrow> error + pystr" where
  "slack_row_text repr field_map =
     (if is_user_row field_map then slack_identity_line repr field_map
      else Inr (slack_generic_line repr field_map))"

definition slack_row_line :: "(pyval \<Rightarrow> pystr) \<Rightarrow> pyval \<Rightarrow> error + pystr" where
  "slack_row_line repr row = bindE (row_field_map row) (slack_row_text repr)"

text \<open>
  The lines of the explanation, rationale and query time sections (appv1.py 154-163);
  every line is an f-string.
\<close>

definition slack_head_lines :: "(pyval \<Rightarrow> pystr) \<Rightarrow> pyval \<Rightarrow> pyval \<Rightarrow> pyval \<Rightarrow> pystr list" where
  "slack_head_lines repr explanation rationale qt =
     (if truthy explanation
      then [ustr ''*Explanation:*'' @ [10] @ py_str repr explanation @ [10]]
      else []) @
     (if truthy rationale
      then [ustr ''*Why this query:* '' @ py_str repr rationale @ [10]]
      else []) @
     (if qt \<noteq> PNone then [ustr ''_Query time_: `'' @ py_str repr qt @ ustr ''`'' @ [10]]
      else [])"

definition slack_results_header :: "nat \<Rightarrow> pystr" where
  "slack_results_header n =
     ustr ''*Results* (showing up to '' @ str_nat (min n 20) @ ustr ''):''"

definition slack_more_note :: "nat \<Rightarrow> pystr" where
  "slack_more_note n =
     [10, 95, 8230] @ ustr '' plus '' @ str_nat (n - 20) @ ustr '' more results_''"

text \<open>\<open>_format_search_api_results\<close> of appv1.py.\<close>

definition slack_format_search_api_results ::
  "(pyval \<Rightarrow> pystr) \<Rightarrow> pyval \<Rightarrow> error + pystr" where
  "slack_format_search_api_results repr inner =
     bindE (py_get inner (ustr ''explanation'') PNone) (\<lambda>explanation.
     bindE (py_get inner (ustr ''rationale'') PNone) (\<lambda>rationale.
     bindE (py_get inner (ustr ''query_result'') (PDict [])) (\<lambda>qr.
     let query_result = py_or qr (PDict []) in
     bindE (py_get query_result (ustr ''metadata'') (PDict [])) (\<lambda>md.
     let metadata = py_or md (PDict []) in
     bindE (py_get query_result (ustr ''results'') (PList [])) (\<lambda>rs.
     let results = py_or rs (PList []) in
     bindE (py_get metadata (ustr ''queryTime'') PNone) (\<lambda>qt.
     let lines2 = slack_head_lines repr explanation rationale qt in
       if \<not> truthy results then
         Inr (join [10] (lines2 @ [ustr ''_No results found._'']))
       else
         bindE (py_len results) (\<lambda>n.
         let lines3 = lines2 @ [slack_results_header n] in
         bindE (py_slice_to results 20) (\<lambda>sl.
         bindE (py_iter sl) (\<lambda>rows.
         bindE (map_result (slack_row_line repr) rows) (\<lambda>row_lines.
         let lines4 =
               lines3 @ row_lines @ (if n > 20 then [slack_more_note n] else [])
         in Inr (join [10] lines4)))))))))))"

text \<open>
  \<open>format_search_api_slack_message\<close>: on the fallback path the raw dump is cut to its
  first 2700 characters here, inside the message builder.
\<close>

definition format_search_api_slack_message ::
  "(pystr \<Rightarrow> error + pyval) \<Rightarrow> (pyval \<Rightarrow> pystr) \<Rightarrow> pystr \<Rightarrow> pystr \<Rightarrow> raw_result \<Rightarrow>
   error + pystr" where
  "format_search_api_slack_message loads repr raw user_query result_obj =
     bindE (extract_inner_json_from_search_api_result loads result_obj) (\<lambda>inner.
       case inner of
         None \<Rightarrow>
           Inr (ustr ''*Query:* `'' @ user_query @ ustr ''`'' @ [10] @
                ustr ''Could not parse structured search_api result, showing raw data:'' @
                [10] @ ustr ''```json'' @ [10] @ take 2700 raw @ [10] @ ustr ''```'')
       | Some inner_json \<Rightarrow>
           bindE (slack_format_search_api_results repr inner_json) (\<lambda>formatted.
             Inr (ustr ''*Query:* `'' @ user_query @ ustr ''`'' @ [10, 10] @ formatted)))"

section \<open>Tool Invoker\<close>

text \<open>
  The remote session is the MCP client library's. What the code does with it is open
  the client and the session, \<open>initialize\<close>, and \<open>call_tool\<close> once; each step returns
  or raises, and \<open>call_tool\<close> returns the envelope.
\<close>

record session =
  connect :: "error + unit"
  initialize :: "error + unit"
  call_tool :: "pystr \<Rightarrow> (pystr \<times> pyval) list \<Rightarrow> error + raw_result"

text \<open>
  \<open>_mcp_search_api\<close> (jc-cli.py 31-40, appv1.py 50-62, app.py 50-62) and its blocking
  wrapper \<open>mcp_search_api_sync\<close> of jc-cli.py and appv1.py, which returns what the
  coroutine returns.
\<close>

definition mcp_search_api :: "session \<Rightarrow> pystr \<Rightarrow> error + raw_result" where
  "mcp_search_api s query =
     bindE (connect s) (\<lambda>_.
     bindE (initialize s) (\<lambda>_.
       call_tool s (ustr ''search_api'') [(ustr ''query'', PStr query)]))"

definition mcp_search_api_sync :: "session \<Rightarrow> pystr \<Rightarrow> error + raw_result" where
  "mcp_search_api_sync s query = mcp_search_api s query"

section \<open>Chat front end with the size bound (app.py)\<close>

text \<open>
  \<open>mcp_search_api_sync\<close> of app.py returns text: \<open>json.dumps\<close> of
  \<open>structuredContent\<close> when it is not \<open>None\<close>, else the dump of the envelope.
  \<open>json.dumps\<close> and the dump of the envelope are the parameters \<open>dumps\<close> and \<open>dump\<close>.
\<close>

definition app_mcp_search_api_sync ::
  "(pyval \<Rightarrow> pystr) \<Rightarrow> (raw_result \<Rightarrow> pystr) \<Rightarrow> session \<Rightarrow> pystr \<Rightarrow> error + pystr" where
  "app_mcp_search_api_sync dumps dump s query =
     bindE (mcp_search_api s query) (\<lambda>result.
       let structured = getattr (structuredContent result) PNone in
       if structured \<noteq> PNone then Inr (dumps structured) else Inr (dump result))"

text \<open>
  The size bound of \<open>handle_jc_command\<close> (app.py 116-121), with the local constant
  \<open>MAX_LEN\<close> as an argument.
\<close>

definition MAX_LEN :: nat where
  "MAX_LEN = 2800"

definition truncation_marker :: pystr where
  "truncation_marker = [10] @ ustr ''... (truncated)''"

definition truncated :: "pystr \<Rightarrow> nat \<Rightarrow> pystr" where
  "truncated raw_json max_len =
     (if length raw_json > max_len then take max_len raw_json @ truncation_marker
      else raw_json)"

text \<open>
  The Slack command: \<open>body\<close> carries the user id and the text, \<open>admins\<close> is
  \<open>ADMIN_USER_IDS\<close>, and the result is the list of the messages passed to \<open>respond\<close>,
  in order. \<open>str_exc\<close> is the text of an exception.
\<close>

record body =
  user_id :: "pystr option"
  body_text :: "pystr option"

definition is_admin :: "pystr set \<Rightarrow> pystr \<Rightarrow> bool" where
  "is_admin admins slack_user_id = (slack_user_id \<in> admins)"

definition not_authorized_msg :: pystr where
  "not_authorized_msg =
     ustr '':no_entry: You are not authorized to use this JumpCloud search bot.''"

definition no_question_msg :: pystr where
  "no_question_msg = ustr ''Please provide a question, e.g. `/jc count users by group`.''"

definition error_msg :: "(error \<Rightarrow> pystr) \<Rightarrow> error \<Rightarrow> pystr" where
  "error_msg str_exc e =
     ustr '':warning: Error while calling JumpCloud MCP `search_api`: `'' @ str_exc e @ ustr ''`''"

definition app_handle_jc_command ::
  "pystr set \<Rightarrow> (pyval \<Rightarrow> pystr) \<Rightarrow> (raw_result \<Rightarrow> pystr) \<Rightarrow> (error \<Rightarrow> pystr) \<Rightarrow>
   session \<Rightarrow> body \<Rightarrow> pystr list" where
  "app_handle_jc_command admins dumps dump str_exc s b =
     (case user_id b of
        None \<Rightarrow> [not_authorized_msg]
      | Some uid \<Rightarrow>
          if uid = [] \<or> \<not> is_admin admins uid then [not_authorized_msg]
          else
            (let text = strip (case body_text b of None \<Rightarrow> [] | Some t \<Rightarrow> t) in
             if text = [] then [no_question_msg]
             else
               (case app_mcp_search_api_sync dumps dump s text of
                  Inl e \<Rightarrow> [error_msg str_exc e]
                | Inr raw_json \<Rightarrow>
                    [ustr ''*Query:* `'' @ text @ ustr ''`'' @ [10] @
                     ustr ''*search_api result:*'' @ [10] @
                     ustr ''```json'' @ [10] @ truncated raw_json MAX_LEN @ [10] @
                     ustr ''```''])))"

section \<open>Chat front end with the formatter (appv1.py)\<close>

text \<open>
  \<open>handle_jc_command\<close> of appv1.py: a "working" message first, then the message of
  \<open>format_search_api_slack_message\<close> as it is, or the error line when the call or the
  formatting raised.
\<close>

definition working_msg :: "pystr \<Rightarrow> pystr" where
  "working_msg text =
     [9203, 32] @ ustr ''Working on your JumpCloud query: `'' @ text @ ustr ''` '' @ [8230]"

definition slack_handle_jc_command ::
  "pystr set \<Rightarrow> (pystr \<Rightarrow> error + pyval) \<Rightarrow> (pyval \<Rightarrow> pystr) \<Rightarrow> (raw_result \<Rightarrow> pystr) \<Rightarrow>
   (error \<Rightarrow> pystr) \<Rightarrow> session \<Rightarrow> body \<Rightarrow> pystr list" where
  "slack_handle_jc_command admins loads repr dump str_exc s b =
     (case user_id b of
        None \<Rightarrow> [not_authorized_msg]
      | Some uid \<Rightarrow>
          if uid = [] \<or> \<not> is_admin admins uid then [not_authorized_msg]
          else
            (let text = strip (case body_text b of None \<Rightarrow> [] | Some t \<Rightarrow> t) in
             if text = [] then [no_question_msg]
             else
               working_msg text #
               (case bindE (mcp_search_api_sync s text) (\<lambda>result_obj.
                       format_search_api_slack_message loads repr (dump result_obj) text
                         result_obj) of
                  Inl e \<Rightarrow> [error_msg str_exc e]
                | Inr msg \<Rightarrow> [msg])))"

section \<open>Predicates of the specification and example inputs\<close>

text \<open>
  The spec's "item whose text string parses to a JSON object": the item has a \<open>text\<close>
  attribute, it is a string, \<open>json.loads\<close> returns on it, and the value is a dict.
\<close>

definition parses_to_object :: "(pystr \<Rightarrow> error + pyval) \<Rightarrow> item \<Rightarrow> bool" where
  "parses_to_object loads it =
     (case item_text it of
        Some (PStr s) \<Rightarrow> (case loads s of Inr v \<Rightarrow> is_dict v | Inl e \<Rightarrow> False)
      | _ \<Rightarrow> False)"

text \<open>Example inputs: a parser that knows two texts, and a content sequence.\<close>

definition example_loads :: "pystr \<Rightarrow> error + pyval" where
  "example_loads s =
     (if s = ustr ''{}'' then Inr (PDict [])
      else if s = ustr ''[]'' then Inr (PList [])
      else Inl JSONDecodeError)"

definition example_items :: "item list" where
  "example_items =
     [\<lparr>item_text = None\<rparr>, \<lparr>item_text = Some (PInt 3)\<rparr>,
      \<lparr>item_text = Some (PStr (ustr ''not json''))\<rparr>, \<lparr>item_text = Some (PStr (ustr ''[]''))\<rparr>,
      \<lparr>item_text = Some (PStr (ustr ''{}''))\<rparr>, \<lparr>item_text = Some (PStr (ustr ''not json''))\<rparr>]"

text \<open>An envelope that reports a remote error, and a session that returns it.\<close>

definition error_envelope :: raw_result where
  "error_envelope =
     \<lparr>structuredContent = None,
      content = Some [\<lparr>item_text = Some (PStr (ustr ''remote tool failed''))\<rparr>],
      isError = True\<rparr>"

definition error_session :: session where
  "error_session =
     \<lparr>connect = Inr (), initialize = Inr (), call_tool = (\<lambda>name args. Inr error_envelope)\<rparr>"

text \<open>
  The name and the value of a \<open>fields\<close> entry, as \<open>f.get("field")\<close> and
  \<open>f.get("value")\<close> read them, and the entries of the spec's data model: a mapping
  whose field name is a string, \<open>None\<close> or absent.
\<close>

definition field_name :: "pyval \<Rightarrow> pyval" where
  "field_name f = (case py_get f (ustr ''field'') PNone of Inr v \<Rightarrow> v | Inl e \<Rightarrow> PNone)"

definition field_value :: "pyval \<Rightarrow> pyval" where
  "field_value f = (case py_get f (ustr ''value'') PNone of Inr v \<Rightarrow> v | Inl e \<Rightarrow> PNone)"

definition is_field_entry :: "pyval \<Rightarrow> bool" where
  "is_field_entry f = (is_dict f \<and> (field_name f = PNone \<or> is_str (field_name f)))"

definition store_field :: "(pyval \<times> pyval) list \<Rightarrow> pyval \<Rightarrow> (pyval \<times> pyval) list" where
  "store_field field_map f =
     (if truthy (field_name f) then dict_set field_map (field_name f) (field_value f)
      else field_map)"

text \<open>
  "An extracted payload whose \<open>query_result.results\<close> list is \<open>rs\<close>": the payload is a
  mapping, its \<open>query_result\<close> is a mapping whose \<open>results\<close> is the list \<open>rs\<close>, and
  \<open>query_result.metadata\<close> is a mapping, falsy or absent. \<open>payload_field\<close> and
  \<open>payload_query_time\<close> read the sources of the three sections before the results.
\<close>

definition has_results :: "pyval \<Rightarrow> pyval list \<Rightarrow> bool" where
  "has_results inner rs =
     (case inner of
        PDict kvs \<Rightarrow>
          (case map_of kvs (ustr ''query_result'') of
             Some (PDict qkvs) \<Rightarrow>
               map_of qkvs (ustr ''results'') = Some (PList rs) \<and>
               (case map_of qkvs (ustr ''metadata'') of
                  None \<Rightarrow> True
                | Some md \<Rightarrow> is_dict md \<or> \<not> truthy md)
           | _ \<Rightarrow> False)
      | _ \<Rightarrow> False)"

definition payload_field :: "pyval \<Rightarrow> pystr \<Rightarrow> pyval" where
  "payload_field inner key = (case py_get inner key PNone of Inr v \<Rightarrow> v | Inl e \<Rightarrow> PNone)"

definition payload_query_time :: "pyval \<Rightarrow> pyval" where
  "payload_query_time inner =
     payload_field (payload_field (payload_field inner (ustr ''query_result''))
       (ustr ''metadata'')) (ustr ''queryTime'')"

text \<open>Example rows and payloads.\<close>

definition field_entry :: "string \<Rightarrow> pyval \<Rightarrow> pyval" where
  "field_entry name v = PDict [(ustr ''field'', PStr (ustr name)), (ustr ''value'', v)]"

definition row_of :: "pyval list \<Rightarrow> pyval" where
  "row_of fs = PDict [(ustr ''fields'', PList fs), (ustr ''itemnum'', PInt 1)]"

definition payload_of :: "pyval list \<Rightarrow> pyval" where
  "payload_of rs =
     PDict [(ustr ''explanation'', PStr (ustr ''x'')),
            (ustr ''query_result'', PDict [(ustr ''results'', PList rs)])]"

definition no_repr :: "pyval \<Rightarrow> pystr" where
  "no_repr v = ustr ''?''"

text \<open>A row with an e-mail address whose first name is a number.\<close>

definition bad_name_row :: pyval where
  "bad_name_row =
     row_of [field_entry ''user.email'' (PStr (ustr ''a@x.com'')),
             field_entry ''user.first_name'' (PInt 5)]"

text \<open>
  A fields list with a duplicate name and with entries whose name is \<open>None\<close>, absent
  or empty.
\<close>

definition example_fields :: "pyval list" where
  "example_fields =
     [field_entry ''device.name'' (PStr (ustr ''old'')),
      PDict [(ustr ''field'', PNone), (ustr ''value'', PInt 2)],
      PDict [(ustr ''value'', PInt 3)],
      field_entry '''' (PInt 4),
      field_entry ''device.name'' (PStr (ustr ''laptop1''))]"

text \<open>
  Rows: an e-mail address that is \<open>null\<close>, an e-mail address and nothing else, a device,
  and a user.
\<close>

definition null_email_row :: pyval where
  "null_email_row = row_of [field_entry ''user.email'' PNone]"

definition email_only_row :: pyval where
  "email_only_row = row_of [field_entry ''user.email'' (PStr (ustr ''a@x.com''))]"

definition device_row :: pyval where
  "device_row = row_of [field_entry ''device.name'' (PStr (ustr ''laptop1''))]"

definition user_row :: pyval where
  "user_row =
     row_of [field_entry ''user.username'' (PStr (ustr ''ak'')),
             field_entry ''user.email'' (PStr (ustr ''a@x.com''))]"

text \<open>
  For the chat front end: an envelope whose explanation has 3000 characters, a session
  that returns it, a request of an authorised user, a raw dump of 3000 characters, and
  the text of an exception.
\<close>

definition long_envelope :: raw_result where
  "long_envelope =
     \<lparr>structuredContent = Some (PDict [(ustr ''explanation'', PStr (replicate 3000 120))]),
      content = None, isError = False\<rparr>"

definition long_session :: session where
  "long_session =
     \<lparr>connect = Inr (), initialize = Inr (), call_tool = (\<lambda>name args. Inr long_envelope)\<rparr>"

definition admin_body :: body where
  "admin_body = \<lparr>user_id = Some (ustr ''U1''), body_text = Some (ustr ''list users'')\<rparr>"

definition no_dump :: "raw_result \<Rightarrow> pystr" where
  "no_dump r = replicate 3000 123"

definition no_str_exc :: "error \<Rightarrow> pystr" where
  "no_str_exc e = ustr ''error''"

text \<open>
  A payload whose explanation is a number and whose metadata is a mapping with a query
  time.
\<close>

definition numeric_explanation_payload :: "pyval list \<Rightarrow> pyval" where
  "numeric_explanation_payload rs =
     PDict [(ustr ''explanation'', PInt 5),
            (ustr ''query_result'',
             PDict [(ustr ''metadata'', PDict [(ustr ''queryTime'', PInt 12)]),
                    (ustr ''results'', PList rs)])]"

section \<open>Properties of the Result Extractor\<close>

lemma scan_content_skip:
  "\<forall>x \<in> set pre. \<not> parses_to_object loads x \<Longrightarrow>
   scan_content loads (pre @ rest) = scan_content loads rest"
  by (induction pre)
    (auto simp: parses_to_object_def getattr_def split: option.splits pyval.splits sum.splits)

lemma scan_content_hit:
  "item_text it = Some (PStr s) \<Longrightarrow> loads s = Inr (PDict kvs) \<Longrightarrow>
   scan_content loads (it # post) = Inr (Some (PDict kvs))"
  by (simp add: getattr_def)

lemma extract_falls_through:
  "\<not> is_dict (getattr (structuredContent r) PNone) \<Longrightarrow>
   extract_inner_json_from_search_api_result loads r =
     (case content r of None \<Rightarrow> Inr None | Some items \<Rightarrow> scan_content loads items)"
  by (simp add: extract_inner_json_from_search_api_result_def Let_def
      split: option.splits list.splits)


text \<open>
  C1. When \<open>structuredContent\<close> is not a mapping and the content sequence is
  \<open>pre @ it # post\<close>, where no item of \<open>pre\<close> parses to a JSON object (its text is
  absent, not a string, unparsable, or parses to a non-mapping) and the text of \<open>it\<close>
  parses to the object \<open>PDict kvs\<close>, extraction returns \<open>PDict kvs\<close>: the items of
  \<open>pre\<close> are skipped without aborting, and the result is the same for every \<open>post\<close>,
  so no later item decides anything.
\<close>

theorem extract_first_object:
  assumes "\<not> is_dict (getattr (structuredContent r) PNone)"
    and "content r = Some (pre @ it # post)"
    and "\<forall>x \<in> set pre. \<not> parses_to_object loads x"
    and "item_text it = Some (PStr s)"
    and "loads s = Inr (PDict kvs)"
  shows "extract_inner_json_from_search_api_result loads r = Inr (Some (PDict kvs))"
proof -
  have "scan_content loads (pre @ it # post) = scan_content loads (it # post)"
    using assms(3) by (rule scan_content_skip)
  also have "\<dots> = Inr (Some (PDict kvs))"
    using assms(4,5) by (rule scan_content_hit)
  finally show ?thesis
    using assms(1,2) by (simp add: extract_falls_through)
qed

theorem extract_first_object_witness:
  "extract_inner_json_from_search_api_result example_loads
     \<lparr>structuredContent = Some (PList []), content = Some example_items, isError = False\<rparr> =
   Inr (Some (PDict []))"
  using extract_first_object [of
      "\<lparr>structuredContent = Some (PList []), content = Some example_items, isError = False\<rparr>"
      "take 4 example_items" "example_items ! 4" "drop 5 example_items" example_loads
      "ustr ''{}''" "[]"]
  by (simp add: getattr_def parses_to_object_def ustr_def example_items_def example_loads_def)

text \<open>
  C2. A mapping in \<open>structuredContent\<close> is returned unchanged, whatever the content
  sequence and the JSON parser are (the content is not read); a \<open>structuredContent\<close>
  that is present but not a mapping leaves the result to the scan of \<open>content[].text\<close>.
\<close>

theorem extract_structured_content:
  "(structuredContent r = Some (PDict kvs) \<longrightarrow>
      extract_inner_json_from_search_api_result loads r = Inr (Some (PDict kvs)) \<and>
      extract_inner_json_from_search_api_result loads' (r\<lparr>content := c\<rparr>) =
        Inr (Some (PDict kvs))) \<and>
   (structuredContent r' = Some v \<and> \<not> is_dict v \<longrightarrow>
      extract_inner_json_from_search_api_result loads r' =
        (case content r' of None \<Rightarrow> Inr None | Some items \<Rightarrow> scan_content loads items))"
  by (simp add: extract_inner_json_from_search_api_result_def Let_def getattr_def
      split: option.splits list.splits)

theorem extract_structured_content_witness:
  "extract_inner_json_from_search_api_result example_loads
     \<lparr>structuredContent = Some (PDict [(ustr ''explanation'', PStr (ustr ''x''))]),
      content = Some example_items, isError = False\<rparr> =
     Inr (Some (PDict [(ustr ''explanation'', PStr (ustr ''x''))])) \<and>
   extract_inner_json_from_search_api_result example_loads
     \<lparr>structuredContent = Some (PInt 7), content = Some example_items, isError = False\<rparr> =
     scan_content example_loads example_items"
  using extract_structured_content [of
      "\<lparr>structuredContent = Some (PDict [(ustr ''explanation'', PStr (ustr ''x''))]),
        content = Some example_items, isError = False\<rparr>"
      "[(ustr ''explanation'', PStr (ustr ''x''))]" example_loads example_loads "None"
      "\<lparr>structuredContent = Some (PInt 7), content = Some example_items, isError = False\<rparr>"
      "PInt 7"]
  by simp


section \<open>Properties of the Size Bounder and the Tool Invoker\<close>

text \<open>
  C5. The size bound returns a text no longer than the budget unchanged, and otherwise
  the first \<open>max_chars\<close> characters followed by the truncation marker, a newline and
  \<open>... (truncated)\<close>, so that the result is longer than the budget by the 16 characters
  of the marker. An 11-character text with budget 10 gives its first 10 characters and
  the marker; a 10-character text with budget 10 is unchanged.
\<close>

theorem truncated_bound:
  "(length text \<le> max_chars \<longrightarrow> truncated text max_chars = text) \<and>
   (max_chars < length text \<longrightarrow>
      truncated text max_chars = take max_chars text @ truncation_marker \<and>
      length (truncated text max_chars) = max_chars + length truncation_marker) \<and>
   (length t11 = 11 \<longrightarrow> truncated t11 10 = take 10 t11 @ truncation_marker) \<and>
   (length t10 = 10 \<longrightarrow> truncated t10 10 = t10) \<and>
   truncation_marker = [10] @ ustr ''... (truncated)'' \<and> length truncation_marker = 16"
  by (simp add: truncated_def truncation_marker_def ustr_def)

theorem truncated_bound_witness:
  "truncated (ustr ''hello world'') 10 = ustr ''hello worl'' @ truncation_marker \<and>
   length (truncated (ustr ''hello world'') 10) = 26 \<and>
   truncated (ustr ''0123456789'') 10 = ustr ''0123456789''"
  using truncated_bound [of "ustr ''0123456789''" 10 "ustr ''hello world''" "ustr ''0123456789''"]
    truncated_bound [of "ustr ''hello world''" 10 "ustr ''hello world''" "ustr ''0123456789''"]
  by (simp add: ustr_def)





section \<open>Lemmas on dictionaries, field reduction and payload access\<close>

subsection \<open>Dictionaries built by the code\<close>

lemma key_eq_refl [simp]: "key_eq a a"
  by (simp add: key_eq_def split: option.splits)

lemma key_eq_sym: "key_eq a b \<Longrightarrow> key_eq b a"
  by (auto simp: key_eq_def split: option.splits)

lemma key_eq_trans: "key_eq a b \<Longrightarrow> key_eq b c \<Longrightarrow> key_eq a c"
  by (auto simp: key_eq_def split: option.splits)

lemma key_eq_cong: "key_eq a b \<Longrightarrow> key_eq a c = key_eq b c"
  using key_eq_sym key_eq_trans by blast

lemma key_eq_PStr [simp]: "key_eq (PStr a) k = (k = PStr a)" "key_eq k (PStr a) = (k = PStr a)"
  by (auto simp: key_eq_def split: option.splits)

lemma dict_get_dict_set:
  "dict_get (dict_set m k v) k' d = (if key_eq k k' then v else dict_get m k' d)"
proof (induction m)
  case Nil
  show ?case by simp
next
  case (Cons kv m)
  obtain k0 v0 where kv: "kv = (k0, v0)" by (cases kv)
  show ?case
  proof (cases "key_eq k0 k")
    case True
    then have "key_eq k0 k' = key_eq k k'" by (rule key_eq_cong)
    with True show ?thesis by (simp add: kv)
  next
    case False
    have "\<not> (key_eq k0 k' \<and> key_eq k k')"
      using False key_eq_sym key_eq_trans by blast
    with False show ?thesis using Cons.IH by (auto simp: kv)
  qed
qed

lemma keys_dict_set:
  "map fst (dict_set m k v) =
     (if \<exists>k' \<in> set (map fst m). key_eq k' k then map fst m else map fst m @ [k])"
  by (induction m) force+

lemma keys_dict_set_str:
  "set (map fst (dict_set m (PStr k) v)) = insert (PStr k) (set (map fst m))"
  unfolding keys_dict_set by (auto simp del: set_map)

subsection \<open>The reduction of a fields list\<close>

lemma reduce_fields_step:
  "is_field_entry f \<Longrightarrow> reduce_fields m (f # fs) = reduce_fields (store_field m f) fs"
  by (cases f; cases "field_name f")
    (auto simp: is_field_entry_def store_field_def field_name_def field_value_def py_get_def
      bindE_def split: option.splits)

lemma reduce_fields_foldl:
  "list_all is_field_entry fs \<Longrightarrow> reduce_fields m fs = Inr (foldl store_field m fs)"
proof (induction fs arbitrary: m)
  case Nil
  show ?case by simp
next
  case (Cons f fs)
  then show ?case by (simp add: reduce_fields_step del: reduce_fields.simps)
qed

lemma reduce_fields_drop:
  "is_dict f \<Longrightarrow> \<not> truthy (field_name f) \<Longrightarrow>
   reduce_fields m (pre @ f # post) = reduce_fields m (pre @ post)"
proof (induction pre arbitrary: m)
  case Nil
  then show ?case
    by (cases f) (auto simp: field_name_def py_get_def bindE_def split: option.splits)
next
  case (Cons g pre)
  then show ?case by (auto simp: bindE_def split: sum.splits)
qed

subsection \<open>Access to the payload\<close>

lemma bindE_simps [simp]: "bindE (Inr x) f = f x" "bindE (Inl e) f = Inl e"
  by (simp_all add: bindE_def)

lemma has_results_unfold:
  assumes "has_results inner rs"
  shows "\<exists>kvs qkvs. inner = PDict kvs \<and> map_of kvs (ustr ''query_result'') = Some (PDict qkvs) \<and>
      map_of qkvs (ustr ''results'') = Some (PList rs) \<and>
      (map_of qkvs (ustr ''metadata'') = None \<or>
       (\<exists>md. map_of qkvs (ustr ''metadata'') = Some md \<and> (is_dict md \<or> \<not> truthy md)))"
proof -
  obtain kvs where i: "inner = PDict kvs"
    using assms by (cases inner) (simp_all add: has_results_def)
  obtain q where q: "map_of kvs (ustr ''query_result'') = Some q"
    using assms by (cases "map_of kvs (ustr ''query_result'')") (simp_all add: has_results_def i)
  obtain qkvs where qk: "q = PDict qkvs"
    using assms by (cases q) (simp_all add: has_results_def i q)
  show ?thesis
    using assms by (auto simp: has_results_def i q qk split: option.split_asm)
qed

lemma payload_gets:
  assumes "has_results inner rs" and "rs \<noteq> []"
  shows "\<exists>qr md.
      py_get inner (ustr ''explanation'') PNone = Inr (payload_field inner (ustr ''explanation'')) \<and>
      py_get inner (ustr ''rationale'') PNone = Inr (payload_field inner (ustr ''rationale'')) \<and>
      py_get inner (ustr ''query_result'') (PDict []) = Inr qr \<and>
      py_get (py_or qr (PDict [])) (ustr ''metadata'') (PDict []) = Inr md \<and>
      py_get (py_or qr (PDict [])) (ustr ''results'') (PList []) = Inr (PList rs) \<and>
      py_get (py_or md (PDict [])) (ustr ''queryTime'') PNone = Inr (payload_query_time inner)"
proof -
  obtain kvs qkvs where inner: "inner = PDict kvs"
    and qr: "map_of kvs (ustr ''query_result'') = Some (PDict qkvs)"
    and res: "map_of qkvs (ustr ''results'') = Some (PList rs)"
    and md: "map_of qkvs (ustr ''metadata'') = None \<or>
       (\<exists>md. map_of qkvs (ustr ''metadata'') = Some md \<and> (is_dict md \<or> \<not> truthy md))"
    using has_results_unfold [OF assms(1)] by blast
  have qne: "qkvs \<noteq> []" using res by auto
  from md show ?thesis
  proof
    assume "map_of qkvs (ustr ''metadata'') = None"
    then show ?thesis
      using qr res qne
      by (simp add: inner py_get_def py_or_def payload_field_def payload_query_time_def)
  next
    assume "\<exists>md. map_of qkvs (ustr ''metadata'') = Some md \<and> (is_dict md \<or> \<not> truthy md)"
    then obtain md where m: "map_of qkvs (ustr ''metadata'') = Some md"
      and mm: "is_dict md \<or> \<not> truthy md" by blast
    show ?thesis
      using qr res qne m mm
      by (cases md)
        (simp_all add: inner py_get_def py_or_def payload_field_def payload_query_time_def)
  qed
qed

lemma cli_format_unfold:
  assumes "has_results inner rs" and "rs \<noteq> []"
  shows "cli_format_search_api_results repr inner =
     bindE (map_result (cli_row_line repr) (take 20 rs)) (\<lambda>row_lines.
       join_vals [10]
         (cli_head_lines repr (payload_field inner (ustr ''explanation''))
            (payload_field inner (ustr ''rationale'')) (payload_query_time inner) @
          [PStr (cli_results_header (length rs))] @ map PStr row_lines @
          (if length rs > 20 then [PStr (cli_more_note (length rs))] else [])))"
proof -
  obtain qr md where g:
      "py_get inner (ustr ''explanation'') PNone = Inr (payload_field inner (ustr ''explanation''))"
      "py_get inner (ustr ''rationale'') PNone = Inr (payload_field inner (ustr ''rationale''))"
      "py_get inner (ustr ''query_result'') (PDict []) = Inr qr"
      "py_get (py_or qr (PDict [])) (ustr ''metadata'') (PDict []) = Inr md"
      "py_get (py_or qr (PDict [])) (ustr ''results'') (PList []) = Inr (PList rs)"
      "py_get (py_or md (PDict [])) (ustr ''queryTime'') PNone = Inr (payload_query_time inner)"
    using payload_gets [OF assms] by blast
  have r: "py_or (PList rs) (PList []) = PList rs"
    using assms(2) by (simp add: py_or_def)
  show ?thesis
    unfolding cli_format_search_api_results_def
    using assms(2) by (simp add: g r Let_def py_len_def py_slice_to_def py_iter_def)
qed

lemma slack_format_unfold:
  assumes "has_results inner rs" and "rs \<noteq> []"
  shows "slack_format_search_api_results repr inner =
     bindE (map_result (slack_row_line repr) (take 20 rs)) (\<lambda>row_lines.
       Inr (join [10]
         (slack_head_lines repr (payload_field inner (ustr ''explanation''))
            (payload_field inner (ustr ''rationale'')) (payload_query_time inner) @
          [slack_results_header (length rs)] @ row_lines @
          (if length rs > 20 then [slack_more_note (length rs)] else []))))"
proof -
  obtain qr md where g:
      "py_get inner (ustr ''explanation'') PNone = Inr (payload_field inner (ustr ''explanation''))"
      "py_get inner (ustr ''rationale'') PNone = Inr (payload_field inner (ustr ''rationale''))"
      "py_get inner (ustr ''query_result'') (PDict []) = Inr qr"
      "py_get (py_or qr (PDict [])) (ustr ''metadata'') (PDict []) = Inr md"
      "py_get (py_or qr (PDict [])) (ustr ''results'') (PList []) = Inr (PList rs)"
      "py_get (py_or md (PDict [])) (ustr ''queryTime'') PNone = Inr (payload_query_time inner)"
    using payload_gets [OF assms] by blast
  have r: "py_or (PList rs) (PList []) = PList rs"
    using assms(2) by (simp add: py_or_def)
  show ?thesis
    unfolding slack_format_search_api_results_def
    using assms(2) by (simp add: g r Let_def py_len_def py_slice_to_def py_iter_def)
qed

subsection \<open>Row iteration, joins and the identity line\<close>

lemma map_result_Inr:
  "map_result f xs = Inr ys \<Longrightarrow>
   length ys = length xs \<and> (\<forall>i < length xs. f (xs ! i) = Inr (ys ! i))"
proof (induction xs arbitrary: ys)
  case Nil
  then show ?case by simp
next
  case (Cons x xs)
  from Cons.prems obtain y ys' where y: "f x = Inr y" and ys': "map_result f xs = Inr ys'"
    and ys: "ys = y # ys'"
    by (auto simp: bindE_def split: sum.splits)
  from Cons.IH [OF ys'] show ?case
    by (auto simp: ys y nth_Cons split: nat.splits)
qed

lemma map_result_raises:
  "map_result f pre = Inr ys \<Longrightarrow> f x = Inl e \<Longrightarrow> map_result f (pre @ x # post) = Inl e"
  by (induction pre arbitrary: ys) (auto simp: bindE_def split: sum.splits)

lemma map_result_replicate:
  "f x = Inr y \<Longrightarrow> map_result f (replicate n x) = Inr (replicate n y)"
  by (induction n) simp_all

lemma join_vals_strs:
  "list_all is_str hs \<Longrightarrow>
   join_vals sep (hs @ map PStr xs) = Inr (join sep (map the_str hs @ xs))"
  by (auto simp: join_vals_def list_all_iff the_str_def comp_def)

lemma cli_head_lines_strs:
  "list_all is_str (cli_head_lines repr e r q) = (is_str e \<or> \<not> truthy e)"
  by (simp add: cli_head_lines_def)

lemma identity_line_raises:
  assumes "\<not> is_str (dict_get fm (PStr (ustr ''user.first_name'')) (PStr [])) \<or>
           \<not> is_str (dict_get fm (PStr (ustr ''user.last_name'')) (PStr []))"
  shows "cli_identity_line repr fm = Inl TypeError \<and> slack_identity_line repr fm = Inl TypeError"
  using assms
  by (cases "dict_get fm (PStr (ustr ''user.first_name'')) (PStr [])";
      cases "dict_get fm (PStr (ustr ''user.last_name'')) (PStr [])")
    (simp_all add: cli_identity_line_def slack_identity_line_def py_add_def)

lemma identity_line_strs:
  assumes "dict_get fm (PStr (ustr ''user.first_name'')) (PStr []) = PStr a"
    and "dict_get fm (PStr (ustr ''user.last_name'')) (PStr []) = PStr b"
  shows "cli_identity_line repr fm =
      Inr (let pretty_name = strip (a @ ustr '' '' @ b);
               email = dict_get fm (PStr (ustr ''user.email'')) PNone;
               username = dict_get fm (PStr (ustr ''user.username'')) PNone;
               uid = dict_get fm (PStr (ustr ''user.id'')) PNone
           in ustr '' - '' @ join (ustr '' | '')
               ((if truthy username then [py_str repr username] else []) @
                (if pretty_name \<noteq> [] then [pretty_name] else []) @
                (if truthy email then [ustr ''<'' @ py_str repr email @ ustr ''>''] else []) @
                (if truthy uid then [ustr ''id='' @ py_str repr uid] else [])))"
    and "slack_identity_line repr fm =
      Inr (let pretty_name = strip (a @ ustr '' '' @ b);
               email = dict_get fm (PStr (ustr ''user.email'')) PNone;
               username = dict_get fm (PStr (ustr ''user.username'')) PNone;
               uid = dict_get fm (PStr (ustr ''user.id'')) PNone
           in [8226, 32] @ join [32, 8211, 32]
               ((if truthy username then [ustr ''`'' @ py_str repr username @ ustr ''`''] else []) @
                (if pretty_name \<noteq> [] then [pretty_name] else []) @
                (if truthy email then [ustr ''<'' @ py_str repr email @ ustr ''>''] else []) @
                (if truthy uid then [ustr ''_id: `'' @ py_str repr uid @ ustr ''`_''] else [])))"
  using assms
  by (simp_all add: cli_identity_line_def slack_identity_line_def py_add_def the_str_def Let_def)

subsection \<open>The mapping of a well-formed fields list\<close>

lemma truthy_name_is_str:
  "is_field_entry f \<Longrightarrow> truthy (field_name f) \<Longrightarrow> \<exists>k. field_name f = PStr k \<and> k \<noteq> []"
  by (cases "field_name f") (auto simp: is_field_entry_def)

lemma keys_store_field:
  "is_field_entry f \<Longrightarrow>
   set (map fst (store_field m f)) =
     set (map fst m) \<union> (if truthy (field_name f) then {field_name f} else {})"
  using truthy_name_is_str [of f]
  by (auto simp: store_field_def keys_dict_set_str simp del: set_map)

lemma keys_foldl_store_field:
  "list_all is_field_entry fs \<Longrightarrow>
   set (map fst (foldl store_field m fs)) =
     set (map fst m) \<union> {field_name f | f. f \<in> set fs \<and> truthy (field_name f)}"
proof (induction fs arbitrary: m)
  case Nil
  show ?case by simp
next
  case (Cons f fs)
  then have "set (map fst (foldl store_field (store_field m f) fs)) =
      set (map fst (store_field m f)) \<union> {field_name g | g. g \<in> set fs \<and> truthy (field_name g)}"
    by simp
  also have "\<dots> = set (map fst m) \<union> {field_name g | g. g \<in> set (f # fs) \<and> truthy (field_name g)}"
    using Cons.prems by (auto simp: keys_store_field simp del: set_map)
  finally show ?case by simp
qed

lemma get_store_field:
  "is_field_entry f \<Longrightarrow>
   dict_get (store_field m f) (PStr k) d =
     (if field_name f = PStr k \<and> k \<noteq> [] then field_value f else dict_get m (PStr k) d)"
  using truthy_name_is_str [of f]
  by (auto simp: store_field_def dict_get_dict_set)

lemma get_foldl_store_field:
  assumes "list_all is_field_entry fs" and "k \<noteq> []"
  shows "dict_get (foldl store_field m fs) (PStr k) d =
     (if filter (\<lambda>g. field_name g = PStr k) fs = [] then dict_get m (PStr k) d
      else field_value (last (filter (\<lambda>g. field_name g = PStr k) fs)))"
  using assms(1)
proof (induction fs rule: rev_induct)
  case Nil
  show ?case by simp
next
  case (snoc f fs)
  then have IH: "dict_get (foldl store_field m fs) (PStr k) d =
     (if filter (\<lambda>g. field_name g = PStr k) fs = [] then dict_get m (PStr k) d
      else field_value (last (filter (\<lambda>g. field_name g = PStr k) fs)))"
    and f: "is_field_entry f" by simp_all
  show ?case
  proof (cases "field_name f = PStr k")
    case True
    then show ?thesis
      using assms(2) by (simp add: get_store_field [OF f])
  next
    case False
    then show ?thesis
      using IH by (simp add: get_store_field [OF f])
  qed
qed

lemma filter_truthy_names:
  "list_all is_field_entry fs \<Longrightarrow>
   foldl store_field m (filter (\<lambda>f. truthy (field_name f)) fs) = foldl store_field m fs"
  by (induction fs arbitrary: m) (auto simp: store_field_def)

lemma row_field_map_fields:
  assumes "py_get row (ustr ''fields'') (PList []) = Inr (PList fs)"
  shows "row_field_map row = reduce_fields [] fs"
  using assms by (cases fs) (simp_all add: row_field_map_def py_or_def py_iter_def)

subsection \<open>Literals and rows that raise\<close>

lemma ustr_eq_iff [simp]: "ustr a = ustr b \<longleftrightarrow> a = b"
proof -
  have "inj (of_char :: char \<Rightarrow> nat)" by (rule injI) simp
  then show ?thesis by (simp add: ustr_def inj_map_eq_map)
qed

lemma ustr_Nil [simp]: "ustr [] = []" "ustr s = [] \<longleftrightarrow> s = []" "[] = ustr s \<longleftrightarrow> s = []"
  by (auto simp: ustr_def)

lemma ustr_simps:
  "ustr [] = []" "ustr (c # cs) = of_char c # ustr cs"
  by (simp_all add: ustr_def)

lemma payload_of_has_results: "has_results (payload_of rs) rs"
  by (simp add: has_results_def payload_of_def ustr_def)

lemma bad_name_row_field_map:
  "row_field_map bad_name_row =
     Inr [(PStr (ustr ''user.email''), PStr (ustr ''a@x.com'')),
          (PStr (ustr ''user.first_name''), PInt 5)]"
  by (simp add: bad_name_row_def row_of_def field_entry_def row_field_map_def py_get_def
      py_or_def py_iter_def ustr_def)

lemma row_raises:
  assumes "row_field_map row = Inr fm" and "is_user_row fm"
    and "\<not> is_str (dict_get fm (PStr (ustr ''user.first_name'')) (PStr [])) \<or>
         \<not> is_str (dict_get fm (PStr (ustr ''user.last_name'')) (PStr []))"
  shows "cli_row_line repr row = Inl TypeError" and "slack_row_line repr row = Inl TypeError"
  using assms identity_line_raises [OF assms(3), of repr]
  by (simp_all add: cli_row_line_def slack_row_line_def cli_row_text_def slack_row_text_def)

lemma format_raises:
  assumes "has_results inner (pre @ row # post)" and "length pre < 20"
    and "map_result (cli_row_line repr) pre = Inr cls"
    and "map_result (slack_row_line repr) pre = Inr sls"
    and "cli_row_line repr row = Inl e" and "slack_row_line repr row = Inl e"
  shows "cli_format_search_api_results repr inner = Inl e"
    and "slack_format_search_api_results repr inner = Inl e"
proof -
  have t: "take 20 (pre @ row # post) = pre @ row # take (19 - length pre) post"
    using assms(2) by (simp add: take_Cons')
  have ne: "pre @ row # post \<noteq> []" by simp
  have c: "map_result (cli_row_line repr) (take 20 (pre @ row # post)) = Inl e"
    unfolding t using assms(3,5) by (rule map_result_raises)
  have s: "map_result (slack_row_line repr) (take 20 (pre @ row # post)) = Inl e"
    unfolding t using assms(4,6) by (rule map_result_raises)
  show "cli_format_search_api_results repr inner = Inl e"
    unfolding cli_format_unfold [OF assms(1) ne] c by simp
  show "slack_format_search_api_results repr inner = Inl e"
    unfolding slack_format_unfold [OF assms(1) ne] s by simp
qed

subsection \<open>Evaluation of the example rows\<close>

lemmas row_eval =
  row_of_def field_entry_def row_field_map_def py_get_def py_or_def py_iter_def
  cli_row_line_def cli_row_text_def cli_generic_line_def cli_identity_line_def
  slack_row_line_def slack_row_text_def slack_generic_line_def slack_identity_line_def
  is_user_row_def py_str_def py_add_def the_str_def strip_def isspace_def no_repr_def

lemma device_row_lines:
  "cli_row_line no_repr device_row = Inr (ustr '' - device.name=laptop1'')"
  "slack_row_line no_repr device_row = Inr ([8226, 32] @ ustr ''*device.name*: `laptop1`'')"
  by (simp_all add: device_row_def row_eval ustr_simps)

lemma user_row_lines:
  "cli_row_line no_repr user_row = Inr (ustr '' - ak | <a@x.com>'')"
  "slack_row_line no_repr user_row = Inr ([8226, 32] @ ustr ''`ak` '' @ [8211] @ ustr '' <a@x.com>'')"
  by (simp_all add: user_row_def row_eval ustr_simps)

lemma payload_of_fields:
  "payload_field (payload_of rs) (ustr ''explanation'') = PStr (ustr ''x'')"
  "payload_field (payload_of rs) (ustr ''rationale'') = PNone"
  "payload_query_time (payload_of rs) = PNone"
  by (simp_all add: payload_of_def payload_field_def payload_query_time_def py_get_def)

lemma numeric_explanation_payload_has_results:
  "has_results (numeric_explanation_payload rs) rs"
  by (simp add: has_results_def numeric_explanation_payload_def)

lemma numeric_explanation_payload_fields:
  "payload_field (numeric_explanation_payload rs) (ustr ''explanation'') = PInt 5"
  "payload_field (numeric_explanation_payload rs) (ustr ''rationale'') = PNone"
  "payload_query_time (numeric_explanation_payload rs) = PInt 12"
  by (simp_all add: numeric_explanation_payload_def payload_field_def payload_query_time_def
      py_get_def)

section \<open>Properties of the Result Formatter\<close>

text \<open>
  C3, as the claim states it, fails: this payload has 21 rows, and each row has an
  e-mail address and a first name that is a number, so both formatters raise
  \<open>TypeError\<close> on the first row and emit nothing.
\<close>

theorem format_row_cap_counterexample:
  "has_results (payload_of (replicate 21 bad_name_row)) (replicate 21 bad_name_row) \<and>
   length (replicate 21 bad_name_row) = 21 \<and>
   cli_format_search_api_results no_repr (payload_of (replicate 21 bad_name_row)) =
     Inl TypeError \<and>
   slack_format_search_api_results no_repr (payload_of (replicate 21 bad_name_row)) =
     Inl TypeError"
proof -
  have fm: "is_user_row [(PStr (ustr ''user.email''), PStr (ustr ''a@x.com'')),
          (PStr (ustr ''user.first_name''), PInt 5)]"
    by (simp add: is_user_row_def)
  have r: "cli_row_line no_repr bad_name_row = Inl TypeError"
    "slack_row_line no_repr bad_name_row = Inl TypeError"
    using row_raises [OF bad_name_row_field_map fm] by simp_all
  have h: "has_results (payload_of (replicate 21 bad_name_row))
     ([] @ bad_name_row # replicate 20 bad_name_row)"
    using payload_of_has_results [of "replicate 21 bad_name_row"] by (simp flip: replicate_Suc)
  show ?thesis
    using format_raises [OF h, of no_repr "[]" "[]" TypeError] r
      payload_of_has_results [of "replicate 21 bad_name_row"]
    by simp
qed

text \<open>
  C3, amended. Let the payload be a mapping whose \<open>query_result\<close> is a mapping, whose
  \<open>query_result.results\<close> is the non-empty list \<open>rs\<close>, and whose
  \<open>query_result.metadata\<close> is a mapping, falsy or absent (\<open>has_results\<close>). For the
  command line formatter let each of the first 20 rows render, with lines \<open>cls\<close>, and
  let the explanation be a string or falsy; for the chat formatter let each of the first
  20 rows render, with lines \<open>sls\<close>, and nothing more. Then with more than 20 rows the
  output is the section lines, the header that says 20, exactly 20 row lines, and one
  note with the number of rows beyond 20; with at most 20 rows it is the section lines,
  the header that says the number of rows, and one line per row, with no note. The row
  lines are those of the rows in the order received.
\<close>

theorem format_caps_rows:
  assumes "has_results inner rs" and "rs \<noteq> []"
  shows "(map_result (cli_row_line repr) (take 20 rs) = Inr cls \<and>
     (is_str (payload_field inner (ustr ''explanation'')) \<or>
      \<not> truthy (payload_field inner (ustr ''explanation''))) \<longrightarrow>
       (20 < length rs \<longrightarrow>
          cli_format_search_api_results repr inner =
            Inr (join [10]
              (map the_str
                 (cli_head_lines repr (payload_field inner (ustr ''explanation''))
                    (payload_field inner (ustr ''rationale'')) (payload_query_time inner)) @
               [ustr ''Results (showing up to 20):''] @ cls @
               [ustr ''... plus '' @ str_nat (length rs - 20) @ ustr '' more''])) \<and>
          length cls = 20) \<and>
       (length rs \<le> 20 \<longrightarrow>
          cli_format_search_api_results repr inner =
            Inr (join [10]
              (map the_str
                 (cli_head_lines repr (payload_field inner (ustr ''explanation''))
                    (payload_field inner (ustr ''rationale'')) (payload_query_time inner)) @
               [ustr ''Results (showing up to '' @ str_nat (length rs) @ ustr ''):''] @ cls)) \<and>
          length cls = length rs) \<and>
       (\<forall>i < min (length rs) 20. cli_row_line repr (rs ! i) = Inr (cls ! i))) \<and>
    (map_result (slack_row_line repr) (take 20 rs) = Inr sls \<longrightarrow>
       (20 < length rs \<longrightarrow>
          slack_format_search_api_results repr inner =
            Inr (join [10]
              (slack_head_lines repr (payload_field inner (ustr ''explanation''))
                 (payload_field inner (ustr ''rationale'')) (payload_query_time inner) @
               [ustr ''*Results* (showing up to 20):''] @ sls @
               [[10, 95, 8230] @ ustr '' plus '' @ str_nat (length rs - 20) @
                ustr '' more results_''])) \<and>
          length sls = 20) \<and>
       (length rs \<le> 20 \<longrightarrow>
          slack_format_search_api_results repr inner =
            Inr (join [10]
              (slack_head_lines repr (payload_field inner (ustr ''explanation''))
                 (payload_field inner (ustr ''rationale'')) (payload_query_time inner) @
               [ustr ''*Results* (showing up to '' @ str_nat (length rs) @ ustr ''):''] @
               sls)) \<and>
          length sls = length rs) \<and>
       (\<forall>i < min (length rs) 20. slack_row_line repr (rs ! i) = Inr (sls ! i)))"
proof -
  have twenty: "str_nat 20 = ustr ''20''"
    by (simp add: str_nat.simps ustr_simps)
  have big: "20 < length rs \<longrightarrow>
      cli_results_header (length rs) = ustr ''Results (showing up to 20):'' \<and>
      slack_results_header (length rs) = ustr ''*Results* (showing up to 20):''"
    by (simp add: cli_results_header_def slack_results_header_def twenty ustr_def)
  have small: "length rs \<le> 20 \<longrightarrow>
      cli_results_header (length rs) =
        ustr ''Results (showing up to '' @ str_nat (length rs) @ ustr ''):'' \<and>
      slack_results_header (length rs) =
        ustr ''*Results* (showing up to '' @ str_nat (length rs) @ ustr ''):''"
    by (simp add: cli_results_header_def slack_results_header_def min_def)
  have cli: "(20 < length rs \<longrightarrow>
          cli_format_search_api_results repr inner =
            Inr (join [10]
              (map the_str
                 (cli_head_lines repr (payload_field inner (ustr ''explanation''))
                    (payload_field inner (ustr ''rationale'')) (payload_query_time inner)) @
               [ustr ''Results (showing up to 20):''] @ cls @
               [ustr ''... plus '' @ str_nat (length rs - 20) @ ustr '' more''])) \<and>
          length cls = 20) \<and>
       (length rs \<le> 20 \<longrightarrow>
          cli_format_search_api_results repr inner =
            Inr (join [10]
              (map the_str
                 (cli_head_lines repr (payload_field inner (ustr ''explanation''))
                    (payload_field inner (ustr ''rationale'')) (payload_query_time inner)) @
               [ustr ''Results (showing up to '' @ str_nat (length rs) @ ustr ''):''] @ cls)) \<and>
          length cls = length rs) \<and>
       (\<forall>i < min (length rs) 20. cli_row_line repr (rs ! i) = Inr (cls ! i))"
    if m: "map_result (cli_row_line repr) (take 20 rs) = Inr cls"
      and e: "is_str (payload_field inner (ustr ''explanation'')) \<or>
        \<not> truthy (payload_field inner (ustr ''explanation''))"
  proof -
    have hs: "list_all is_str
        (cli_head_lines repr (payload_field inner (ustr ''explanation''))
           (payload_field inner (ustr ''rationale'')) (payload_query_time inner))"
      using e by (simp add: cli_head_lines_strs)
    have c: "length cls = min (length rs) 20"
      "\<forall>i < min (length rs) 20. cli_row_line repr (rs ! i) = Inr (cls ! i)"
      using map_result_Inr [OF m] by (simp_all add: min.commute)
    have cf: "cli_format_search_api_results repr inner =
        Inr (join [10]
            (map the_str
               (cli_head_lines repr (payload_field inner (ustr ''explanation''))
                  (payload_field inner (ustr ''rationale'')) (payload_query_time inner)) @
             ([cli_results_header (length rs)] @ cls @
              (if 20 < length rs then [cli_more_note (length rs)] else []))))"
      unfolding cli_format_unfold [OF assms(1,2)] m bindE_simps
      using join_vals_strs [OF hs, of "[10]"
          "[cli_results_header (length rs)] @ cls @
           (if 20 < length rs then [cli_more_note (length rs)] else [])"]
      by (cases "20 < length rs") simp_all
    show ?thesis
      using c big small by (simp add: cf cli_more_note_def)
  qed
  have slack: "(20 < length rs \<longrightarrow>
          slack_format_search_api_results repr inner =
            Inr (join [10]
              (slack_head_lines repr (payload_field inner (ustr ''explanation''))
                 (payload_field inner (ustr ''rationale'')) (payload_query_time inner) @
               [ustr ''*Results* (showing up to 20):''] @ sls @
               [[10, 95, 8230] @ ustr '' plus '' @ str_nat (length rs - 20) @
                ustr '' more results_''])) \<and>
          length sls = 20) \<and>
       (length rs \<le> 20 \<longrightarrow>
          slack_format_search_api_results repr inner =
            Inr (join [10]
              (slack_head_lines repr (payload_field inner (ustr ''explanation''))
                 (payload_field inner (ustr ''rationale'')) (payload_query_time inner) @
               [ustr ''*Results* (showing up to '' @ str_nat (length rs) @ ustr ''):''] @
               sls)) \<and>
          length sls = length rs) \<and>
       (\<forall>i < min (length rs) 20. slack_row_line repr (rs ! i) = Inr (sls ! i))"
    if m: "map_result (slack_row_line repr) (take 20 rs) = Inr sls"
  proof -
    have s: "length sls = min (length rs) 20"
      "\<forall>i < min (length rs) 20. slack_row_line repr (rs ! i) = Inr (sls ! i)"
      using map_result_Inr [OF m] by (simp_all add: min.commute)
    have sf: "slack_format_search_api_results repr inner =
        Inr (join [10]
            (slack_head_lines repr (payload_field inner (ustr ''explanation''))
               (payload_field inner (ustr ''rationale'')) (payload_query_time inner) @
             [slack_results_header (length rs)] @ sls @
             (if 20 < length rs then [slack_more_note (length rs)] else [])))"
      unfolding slack_format_unfold [OF assms(1,2)] m bindE_simps by simp
    show ?thesis
      using s big small by (simp add: sf slack_more_note_def)
  qed
  show ?thesis
    using cli slack by blast
qed

theorem format_caps_rows_witness:
  "cli_format_search_api_results no_repr (payload_of (replicate 21 device_row)) =
     Inr (join [10]
       ([ustr ''Explanation:'', ustr ''x'', [], ustr ''Results (showing up to 20):''] @
        replicate 20 (ustr '' - device.name=laptop1'') @ [ustr ''... plus 1 more''])) \<and>
   slack_format_search_api_results no_repr (payload_of (replicate 21 device_row)) =
     Inr (join [10]
       ([ustr ''*Explanation:*'' @ [10] @ ustr ''x'' @ [10],
         ustr ''*Results* (showing up to 20):''] @
        replicate 20 ([8226, 32] @ ustr ''*device.name*: `laptop1`'') @
        [[10, 95, 8230] @ ustr '' plus 1 more results_''])) \<and>
   cli_format_search_api_results no_repr (payload_of [user_row, device_row]) =
     Inr (join [10]
       [ustr ''Explanation:'', ustr ''x'', [], ustr ''Results (showing up to 2):'',
        ustr '' - ak | <a@x.com>'', ustr '' - device.name=laptop1'']) \<and>
   slack_format_search_api_results no_repr (payload_of [user_row, device_row]) =
     Inr (join [10]
       [ustr ''*Explanation:*'' @ [10] @ ustr ''x'' @ [10],
        ustr ''*Results* (showing up to 2):'',
        [8226, 32] @ ustr ''`ak` '' @ [8211] @ ustr '' <a@x.com>'',
        [8226, 32] @ ustr ''*device.name*: `laptop1`'']) \<and>
   slack_format_search_api_results no_repr
       (numeric_explanation_payload (replicate 21 device_row)) =
     Inr (join [10]
       ([ustr ''*Explanation:*'' @ [10] @ ustr ''5'' @ [10],
         ustr ''_Query time_: `12`'' @ [10],
         ustr ''*Results* (showing up to 20):''] @
        replicate 20 ([8226, 32] @ ustr ''*device.name*: `laptop1`'') @
        [[10, 95, 8230] @ ustr '' plus 1 more results_'']))"
proof -
  have h1: "has_results (payload_of (replicate 21 device_row)) (replicate 21 device_row)"
    and h2: "has_results (payload_of [user_row, device_row]) [user_row, device_row]"
    by (rule payload_of_has_results)+
  have h3: "has_results (numeric_explanation_payload (replicate 21 device_row))
      (replicate 21 device_row)"
    by (rule numeric_explanation_payload_has_results)
  have ne: "replicate 21 device_row \<noteq> []" "[user_row, device_row] \<noteq> []"
    by simp_all
  have c1: "map_result (cli_row_line no_repr) (take 20 (replicate 21 device_row)) =
      Inr (replicate 20 (ustr '' - device.name=laptop1''))"
    and s1: "map_result (slack_row_line no_repr) (take 20 (replicate 21 device_row)) =
      Inr (replicate 20 ([8226, 32] @ ustr ''*device.name*: `laptop1`''))"
    by (simp_all add: map_result_replicate device_row_lines)
  have c2: "map_result (cli_row_line no_repr) (take 20 [user_row, device_row]) =
      Inr [ustr '' - ak | <a@x.com>'', ustr '' - device.name=laptop1'']"
    and s2: "map_result (slack_row_line no_repr) (take 20 [user_row, device_row]) =
      Inr [[8226, 32] @ ustr ''`ak` '' @ [8211] @ ustr '' <a@x.com>'',
           [8226, 32] @ ustr ''*device.name*: `laptop1`'']"
    by (simp_all add: device_row_lines user_row_lines)
  have e: "is_str (payload_field (payload_of rs) (ustr ''explanation'')) \<or>
      \<not> truthy (payload_field (payload_of rs) (ustr ''explanation''))" for rs
    by (simp add: payload_of_fields)
  note big = format_caps_rows [OF h1 ne(1), of no_repr
      "replicate 20 (ustr '' - device.name=laptop1'')"
      "replicate 20 ([8226, 32] @ ustr ''*device.name*: `laptop1`'')",
      unfolded payload_of_fields]
  note small = format_caps_rows [OF h2 ne(2), of no_repr
      "[ustr '' - ak | <a@x.com>'', ustr '' - device.name=laptop1'']"
      "[[8226, 32] @ ustr ''`ak` '' @ [8211] @ ustr '' <a@x.com>'',
        [8226, 32] @ ustr ''*device.name*: `laptop1`'']",
      unfolded payload_of_fields]
  note chat = format_caps_rows [OF h3 ne(1), of no_repr "[]"
      "replicate 20 ([8226, 32] @ ustr ''*device.name*: `laptop1`'')",
      unfolded numeric_explanation_payload_fields]
  have b: "cli_format_search_api_results no_repr (payload_of (replicate 21 device_row)) =
     Inr (join [10]
       ([ustr ''Explanation:'', ustr ''x'', [], ustr ''Results (showing up to 20):''] @
        replicate 20 (ustr '' - device.name=laptop1'') @ [ustr ''... plus 1 more'']))"
    "slack_format_search_api_results no_repr (payload_of (replicate 21 device_row)) =
     Inr (join [10]
       ([ustr ''*Explanation:*'' @ [10] @ ustr ''x'' @ [10],
         ustr ''*Results* (showing up to 20):''] @
        replicate 20 ([8226, 32] @ ustr ''*device.name*: `laptop1`'') @
        [[10, 95, 8230] @ ustr '' plus 1 more results_'']))"
    using big c1 s1
    by (simp_all add: cli_head_lines_def slack_head_lines_def the_str_def py_str_def
        str_nat.simps ustr_simps)
  have s: "cli_format_search_api_results no_repr (payload_of [user_row, device_row]) =
     Inr (join [10]
       [ustr ''Explanation:'', ustr ''x'', [], ustr ''Results (showing up to 2):'',
        ustr '' - ak | <a@x.com>'', ustr '' - device.name=laptop1''])"
    "slack_format_search_api_results no_repr (payload_of [user_row, device_row]) =
     Inr (join [10]
       [ustr ''*Explanation:*'' @ [10] @ ustr ''x'' @ [10],
        ustr ''*Results* (showing up to 2):'',
        [8226, 32] @ ustr ''`ak` '' @ [8211] @ ustr '' <a@x.com>'',
        [8226, 32] @ ustr ''*device.name*: `laptop1`''])"
    using small c2 s2
    by (simp_all add: cli_head_lines_def slack_head_lines_def the_str_def py_str_def
        str_nat.simps ustr_simps)
  have c: "slack_format_search_api_results no_repr
       (numeric_explanation_payload (replicate 21 device_row)) =
     Inr (join [10]
       ([ustr ''*Explanation:*'' @ [10] @ ustr ''5'' @ [10],
         ustr ''_Query time_: `12`'' @ [10],
         ustr ''*Results* (showing up to 20):''] @
        replicate 20 ([8226, 32] @ ustr ''*device.name*: `laptop1`'') @
        [[10, 95, 8230] @ ustr '' plus 1 more results_'']))"
    using chat s1
    by (simp add: slack_head_lines_def py_str_def str_int_def str_nat.simps ustr_simps)
  show ?thesis
    using b s c by simp
qed

text \<open>
  C4, as the claim states it, fails: the mapping of this row contains the key
  \<open>user.email\<close>, with the value \<open>None\<close>, and both formatters render the generic
  line, not the identity line.
\<close>

theorem identity_line_presence_counterexample:
  "row_field_map null_email_row = Inr [(PStr (ustr ''user.email''), PNone)] \<and>
   cli_row_line no_repr null_email_row = Inr (ustr '' - user.email=None'') \<and>
   cli_row_line no_repr null_email_row =
     Inr (cli_generic_line no_repr [(PStr (ustr ''user.email''), PNone)]) \<and>
   cli_row_line no_repr null_email_row \<noteq>
     cli_identity_line no_repr [(PStr (ustr ''user.email''), PNone)] \<and>
   slack_row_line no_repr null_email_row = Inr ([8226, 32] @ ustr ''*user.email*: `None`'') \<and>
   slack_row_line no_repr null_email_row \<noteq>
     slack_identity_line no_repr [(PStr (ustr ''user.email''), PNone)]"
  by (simp add: null_email_row_def row_eval ustr_simps)

text \<open>
  C4, amended. When the mapping of a row holds a truthy value under \<open>user.username\<close>,
  \<open>user.email\<close> or \<open>user.id\<close> (any one suffices, the e-mail address alone too), and
  \<open>user.first_name\<close> and \<open>user.last_name\<close> are strings or absent, the row is rendered
  as the identity line: the username, the first and last name joined by a space and
  stripped, the e-mail address and the id, each included only if truthy (the name: if
  not empty), in that order, joined by the fixed separator. When none of the three
  values is truthy, the row is rendered as the generic line of all its fields.
\<close>

theorem identity_line_for_user_rows:
  assumes "row_field_map row = Inr fm"
  shows "((truthy (dict_get fm (PStr (ustr ''user.username'')) PNone) \<or>
       truthy (dict_get fm (PStr (ustr ''user.email'')) PNone) \<or>
       truthy (dict_get fm (PStr (ustr ''user.id'')) PNone)) \<and>
      dict_get fm (PStr (ustr ''user.first_name'')) (PStr []) = PStr fst_name \<and>
      dict_get fm (PStr (ustr ''user.last_name'')) (PStr []) = PStr lst_name \<longrightarrow>
    cli_row_line repr row =
      Inr (let pretty_name = strip (fst_name @ ustr '' '' @ lst_name);
               email = dict_get fm (PStr (ustr ''user.email'')) PNone;
               username = dict_get fm (PStr (ustr ''user.username'')) PNone;
               uid = dict_get fm (PStr (ustr ''user.id'')) PNone
           in ustr '' - '' @ join (ustr '' | '')
               ((if truthy username then [py_str repr username] else []) @
                (if pretty_name \<noteq> [] then [pretty_name] else []) @
                (if truthy email then [ustr ''<'' @ py_str repr email @ ustr ''>''] else []) @
                (if truthy uid then [ustr ''id='' @ py_str repr uid] else []))) \<and>
    slack_row_line repr row =
      Inr (let pretty_name = strip (fst_name @ ustr '' '' @ lst_name);
               email = dict_get fm (PStr (ustr ''user.email'')) PNone;
               username = dict_get fm (PStr (ustr ''user.username'')) PNone;
               uid = dict_get fm (PStr (ustr ''user.id'')) PNone
           in [8226, 32] @ join [32, 8211, 32]
               ((if truthy username then [ustr ''`'' @ py_str repr username @ ustr ''`''] else []) @
                (if pretty_name \<noteq> [] then [pretty_name] else []) @
                (if truthy email then [ustr ''<'' @ py_str repr email @ ustr ''>''] else []) @
                (if truthy uid then [ustr ''_id: `'' @ py_str repr uid @ ustr ''`_''] else [])))) \<and>
   (\<not> truthy (dict_get fm (PStr (ustr ''user.username'')) PNone) \<and>
    \<not> truthy (dict_get fm (PStr (ustr ''user.email'')) PNone) \<and>
    \<not> truthy (dict_get fm (PStr (ustr ''user.id'')) PNone) \<longrightarrow>
    cli_row_line repr row =
      Inr (ustr '' - '' @ join (ustr ''; '')
             (map (\<lambda>kv. py_str repr (fst kv) @ ustr ''='' @ py_str repr (snd kv)) fm)) \<and>
    slack_row_line repr row =
      Inr ([8226, 32] @ join (ustr ''; '')
             (map (\<lambda>kv. ustr ''*'' @ py_str repr (fst kv) @ ustr ''*: `'' @
                         py_str repr (snd kv) @ ustr ''`'') fm)))"
proof (intro conjI impI)
  assume a: "(truthy (dict_get fm (PStr (ustr ''user.username'')) PNone) \<or>
       truthy (dict_get fm (PStr (ustr ''user.email'')) PNone) \<or>
       truthy (dict_get fm (PStr (ustr ''user.id'')) PNone)) \<and>
      dict_get fm (PStr (ustr ''user.first_name'')) (PStr []) = PStr fst_name \<and>
      dict_get fm (PStr (ustr ''user.last_name'')) (PStr []) = PStr lst_name"
  then have u: "is_user_row fm" by (simp add: is_user_row_def)
  from a have n: "dict_get fm (PStr (ustr ''user.first_name'')) (PStr []) = PStr fst_name"
    "dict_get fm (PStr (ustr ''user.last_name'')) (PStr []) = PStr lst_name" by simp_all
  show "cli_row_line repr row =
      Inr (let pretty_name = strip (fst_name @ ustr '' '' @ lst_name);
               email = dict_get fm (PStr (ustr ''user.email'')) PNone;
               username = dict_get fm (PStr (ustr ''user.username'')) PNone;
               uid = dict_get fm (PStr (ustr ''user.id'')) PNone
           in ustr '' - '' @ join (ustr '' | '')
               ((if truthy username then [py_str repr username] else []) @
                (if pretty_name \<noteq> [] then [pretty_name] else []) @
                (if truthy email then [ustr ''<'' @ py_str repr email @ ustr ''>''] else []) @
                (if truthy uid then [ustr ''id='' @ py_str repr uid] else [])))"
    using identity_line_strs(1) [OF n, of repr] u
    by (simp add: cli_row_line_def assms cli_row_text_def)
  show "slack_row_line repr row =
      Inr (let pretty_name = strip (fst_name @ ustr '' '' @ lst_name);
               email = dict_get fm (PStr (ustr ''user.email'')) PNone;
               username = dict_get fm (PStr (ustr ''user.username'')) PNone;
               uid = dict_get fm (PStr (ustr ''user.id'')) PNone
           in [8226, 32] @ join [32, 8211, 32]
               ((if truthy username then [ustr ''`'' @ py_str repr username @ ustr ''`''] else []) @
                (if pretty_name \<noteq> [] then [pretty_name] else []) @
                (if truthy email then [ustr ''<'' @ py_str repr email @ ustr ''>''] else []) @
                (if truthy uid then [ustr ''_id: `'' @ py_str repr uid @ ustr ''`_''] else [])))"
    using identity_line_strs(2) [OF n, of repr] u
    by (simp add: slack_row_line_def assms slack_row_text_def)
next
  assume b: "\<not> truthy (dict_get fm (PStr (ustr ''user.username'')) PNone) \<and>
    \<not> truthy (dict_get fm (PStr (ustr ''user.email'')) PNone) \<and>
    \<not> truthy (dict_get fm (PStr (ustr ''user.id'')) PNone)"
  then have u: "\<not> is_user_row fm" by (simp add: is_user_row_def)
  show "cli_row_line repr row =
      Inr (ustr '' - '' @ join (ustr ''; '')
             (map (\<lambda>kv. py_str repr (fst kv) @ ustr ''='' @ py_str repr (snd kv)) fm))"
    using u by (simp add: cli_row_line_def assms cli_row_text_def cli_generic_line_def)
  show "slack_row_line repr row =
      Inr ([8226, 32] @ join (ustr ''; '')
             (map (\<lambda>kv. ustr ''*'' @ py_str repr (fst kv) @ ustr ''*: `'' @
                         py_str repr (snd kv) @ ustr ''`'') fm))"
    using u by (simp add: slack_row_line_def assms slack_row_text_def slack_generic_line_def)
qed

theorem identity_line_for_user_rows_witness:
  "cli_row_line no_repr email_only_row = Inr (ustr '' - <a@x.com>'') \<and>
   slack_row_line no_repr email_only_row = Inr ([8226, 32] @ ustr ''<a@x.com>'') \<and>
   cli_row_line no_repr device_row = Inr (ustr '' - device.name=laptop1'') \<and>
   slack_row_line no_repr device_row = Inr ([8226, 32] @ ustr ''*device.name*: `laptop1`'')"
proof -
  have e: "row_field_map email_only_row =
      Inr [(PStr (ustr ''user.email''), PStr (ustr ''a@x.com''))]"
    by (simp add: email_only_row_def row_of_def field_entry_def row_field_map_def py_get_def
        py_or_def py_iter_def)
  have d: "row_field_map device_row =
      Inr [(PStr (ustr ''device.name''), PStr (ustr ''laptop1''))]"
    by (simp add: device_row_def row_of_def field_entry_def row_field_map_def py_get_def
        py_or_def py_iter_def)
  show ?thesis
    using identity_line_for_user_rows [OF e, of "[]" "[]" no_repr]
      identity_line_for_user_rows [OF d, of "[]" "[]" no_repr]
    by (simp add: py_str_def strip_def isspace_def ustr_simps)
qed

text \<open>
  C9. For a row whose \<open>fields\<close> is a list of entries of the data model (mappings whose
  field name is a string, \<open>None\<close> or absent), the reduction returns a mapping whose keys
  are exactly the truthy names: an entry whose name is absent, \<open>None\<close> or the empty
  string leaves no key, and the mapping is the same as for the list without these
  entries. Under each kept name the mapping holds the value of the last entry with
  that name. Both renderers compute the row's line from this mapping alone, so a dropped
  entry reaches neither the identity line nor the generic line. An entry with a falsy
  name can be deleted from any list without changing the result of the reduction.
\<close>

theorem reduce_fields_keeps_truthy_names:
  assumes "py_get row (ustr ''fields'') (PList []) = Inr (PList fs)"
    and "list_all is_field_entry fs"
  shows "\<exists>fm. row_field_map row = Inr fm \<and>
      set (map fst fm) = {field_name f | f. f \<in> set fs \<and> truthy (field_name f)} \<and>
      PNone \<notin> set (map fst fm) \<and> PStr [] \<notin> set (map fst fm) \<and>
      (\<forall>f \<in> set fs. truthy (field_name f) \<longrightarrow>
         dict_get fm (field_name f) d =
           field_value (last (filter (\<lambda>g. field_name g = field_name f) fs))) \<and>
      reduce_fields [] (filter (\<lambda>f. truthy (field_name f)) fs) = Inr fm \<and>
      cli_row_line repr row = cli_row_text repr fm \<and>
      slack_row_line repr row = slack_row_text repr fm \<and>
      (is_dict f0 \<and> \<not> truthy (field_name f0) \<longrightarrow>
         reduce_fields m (pre @ f0 # post) = reduce_fields m (pre @ post))"
proof -
  let ?fm = "foldl store_field [] fs"
  have kept: "list_all is_field_entry (filter (\<lambda>f. truthy (field_name f)) fs)"
    using assms(2) by (simp add: list_all_iff)
  have rfm: "row_field_map row = Inr ?fm"
    using assms by (simp add: row_field_map_fields reduce_fields_foldl)
  have keys: "set (map fst ?fm) = {field_name f | f. f \<in> set fs \<and> truthy (field_name f)}"
    using keys_foldl_store_field [OF assms(2), of "[]"] by simp
  have nofalsy: "PNone \<notin> set (map fst ?fm) \<and> PStr [] \<notin> set (map fst ?fm)"
  proof -
    have "\<forall>k \<in> set (map fst ?fm). truthy k" unfolding keys by blast
    then show ?thesis by fastforce
  qed
  have lastwins: "\<forall>f \<in> set fs. truthy (field_name f) \<longrightarrow>
         dict_get ?fm (field_name f) d =
           field_value (last (filter (\<lambda>g. field_name g = field_name f) fs))"
  proof (intro ballI impI)
    fix f assume f: "f \<in> set fs" and t: "truthy (field_name f)"
    then have "is_field_entry f" using assms(2) by (simp add: list_all_iff)
    then obtain k where k: "field_name f = PStr k" "k \<noteq> []"
      using truthy_name_is_str t by blast
    have "filter (\<lambda>g. field_name g = PStr k) fs \<noteq> []"
      using f k by (auto simp: filter_empty_conv)
    then show "dict_get ?fm (field_name f) d =
           field_value (last (filter (\<lambda>g. field_name g = field_name f) fs))"
      using get_foldl_store_field [OF assms(2) k(2), of "[]" d]
      by (simp add: k)
  qed
  have dropped: "reduce_fields [] (filter (\<lambda>f. truthy (field_name f)) fs) = Inr ?fm"
    using kept assms(2) by (simp add: reduce_fields_foldl filter_truthy_names)
  have lines: "cli_row_line repr row = cli_row_text repr ?fm \<and>
      slack_row_line repr row = slack_row_text repr ?fm"
    by (simp add: cli_row_line_def slack_row_line_def rfm)
  have drop1: "is_dict f0 \<and> \<not> truthy (field_name f0) \<longrightarrow>
         reduce_fields m (pre @ f0 # post) = reduce_fields m (pre @ post)"
    using reduce_fields_drop by blast
  show ?thesis
    using rfm keys nofalsy lastwins dropped lines drop1 by blast
qed

theorem reduce_fields_keeps_truthy_names_witness:
  "row_field_map (row_of example_fields) =
     Inr [(PStr (ustr ''device.name''), PStr (ustr ''laptop1''))] \<and>
   cli_row_line no_repr (row_of example_fields) = Inr (ustr '' - device.name=laptop1'')"
  using reduce_fields_keeps_truthy_names [of "row_of example_fields" example_fields PNone no_repr
      "PDict [(ustr ''value'', PInt 3)]" "[]" "[]" "[]"]
  by (simp add: example_fields_def row_of_def field_entry_def py_get_def is_field_entry_def
      field_name_def field_value_def row_field_map_def py_or_def py_iter_def
      cli_row_line_def cli_row_text_def is_user_row_def cli_generic_line_def py_str_def
      ustr_simps)

text \<open>
  C10. Formatting is not total. When a row among the first 20 reduces to a mapping that
  has a truthy \<open>user.username\<close>, \<open>user.email\<close> or \<open>user.id\<close>, and whose
  \<open>user.first_name\<close> or \<open>user.last_name\<close> value is present and not a string, and the
  rows before it render, the concatenation of the display name raises \<open>TypeError\<close>, in
  the row and so in both formatters; and there is a payload, a mapping, on which both
  formatters raise it.
\<close>

theorem format_raises_on_non_string_name:
  "(has_results inner (pre @ row # post) \<and> length pre < 20 \<and>
    map_result (cli_row_line repr) pre = Inr cls \<and>
    map_result (slack_row_line repr) pre = Inr sls \<and>
    row_field_map row = Inr fm \<and> is_user_row fm \<and>
    (\<not> is_str (dict_get fm (PStr (ustr ''user.first_name'')) (PStr [])) \<or>
     \<not> is_str (dict_get fm (PStr (ustr ''user.last_name'')) (PStr []))) \<longrightarrow>
      cli_row_line repr row = Inl TypeError \<and>
      slack_row_line repr row = Inl TypeError \<and>
      cli_format_search_api_results repr inner = Inl TypeError \<and>
      slack_format_search_api_results repr inner = Inl TypeError) \<and>
   (\<exists>payload. is_dict payload \<and>
      cli_format_search_api_results repr payload = Inl TypeError \<and>
      slack_format_search_api_results repr payload = Inl TypeError)"
proof (intro conjI impI)
  assume a: "has_results inner (pre @ row # post) \<and> length pre < 20 \<and>
    map_result (cli_row_line repr) pre = Inr cls \<and>
    map_result (slack_row_line repr) pre = Inr sls \<and>
    row_field_map row = Inr fm \<and> is_user_row fm \<and>
    (\<not> is_str (dict_get fm (PStr (ustr ''user.first_name'')) (PStr [])) \<or>
     \<not> is_str (dict_get fm (PStr (ustr ''user.last_name'')) (PStr [])))"
  then have r: "cli_row_line repr row = Inl TypeError" "slack_row_line repr row = Inl TypeError"
    using row_raises by blast+
  then show "cli_row_line repr row = Inl TypeError" "slack_row_line repr row = Inl TypeError"
    by simp_all
  show "cli_format_search_api_results repr inner = Inl TypeError"
    "slack_format_search_api_results repr inner = Inl TypeError"
    using a r format_raises by blast+
next
  have fm: "is_user_row [(PStr (ustr ''user.email''), PStr (ustr ''a@x.com'')),
          (PStr (ustr ''user.first_name''), PInt 5)]"
    by (simp add: is_user_row_def)
  have r: "cli_row_line repr bad_name_row = Inl TypeError"
    "slack_row_line repr bad_name_row = Inl TypeError"
    using row_raises [OF bad_name_row_field_map fm] by simp_all
  have "cli_format_search_api_results repr (payload_of [bad_name_row]) = Inl TypeError"
    "slack_format_search_api_results repr (payload_of [bad_name_row]) = Inl TypeError"
    using format_raises [of "payload_of [bad_name_row]" "[]" bad_name_row "[]" repr "[]" "[]" TypeError]
      r payload_of_has_results [of "[bad_name_row]"]
    by simp_all
  moreover have "is_dict (payload_of [bad_name_row])" by (simp add: payload_of_def)
  ultimately show "\<exists>payload. is_dict payload \<and>
      cli_format_search_api_results repr payload = Inl TypeError \<and>
      slack_format_search_api_results repr payload = Inl TypeError" by blast
qed

theorem format_raises_on_non_string_name_witness:
  "cli_row_line no_repr bad_name_row = Inl TypeError \<and>
   slack_row_line no_repr bad_name_row = Inl TypeError \<and>
   cli_format_search_api_results no_repr
     (payload_of [row_of [field_entry ''device.name'' (PStr (ustr ''laptop1''))], bad_name_row]) =
     Inl TypeError \<and>
   slack_format_search_api_results no_repr
     (payload_of [row_of [field_entry ''device.name'' (PStr (ustr ''laptop1''))], bad_name_row]) =
     Inl TypeError"
  using format_raises_on_non_string_name [of
      "payload_of [row_of [field_entry ''device.name'' (PStr (ustr ''laptop1''))], bad_name_row]"
      "[row_of [field_entry ''device.name'' (PStr (ustr ''laptop1''))]]" bad_name_row "[]" no_repr
      "[ustr '' - device.name=laptop1'']"
      "[[8226, 32] @ ustr ''*device.name*: `laptop1`'']"
      "[(PStr (ustr ''user.email''), PStr (ustr ''a@x.com'')),
        (PStr (ustr ''user.first_name''), PInt 5)]"]
  by (simp add: payload_of_has_results is_user_row_def bad_name_row_def ustr_simps
      row_of_def field_entry_def row_field_map_def py_get_def py_or_def py_iter_def
      cli_row_line_def cli_row_text_def cli_generic_line_def py_str_def
      slack_row_line_def slack_row_text_def slack_generic_line_def)

section \<open>Properties of the chat front end\<close>

lemma length_ustr [simp]: "length (ustr s) = length s"
  by (simp add: ustr_def)

lemma strip_list_users: "strip (ustr ''list users'') = ustr ''list users''"
  by (simp add: strip_def isspace_def ustr_simps)

lemma long_envelope_message:
  "format_search_api_slack_message example_loads no_repr raw q long_envelope =
     Inr (ustr ''*Query:* `'' @ q @ ustr ''`'' @ [10, 10] @ ustr ''*Explanation:*'' @ [10] @
          replicate 3000 120 @ [10, 10] @ ustr ''_No results found._'')"
proof -
  have y: "extract_inner_json_from_search_api_result example_loads long_envelope =
      Inr (Some (PDict [(ustr ''explanation'', PStr (replicate 3000 120))]))"
    by (simp add: extract_inner_json_from_search_api_result_def long_envelope_def getattr_def)
  have g: "slack_format_search_api_results no_repr
      (PDict [(ustr ''explanation'', PStr (replicate 3000 120))]) =
      Inr (ustr ''*Explanation:*'' @ [10] @ replicate 3000 120 @ [10, 10] @
           ustr ''_No results found._'')"
    by (simp add: slack_format_search_api_results_def py_get_def py_or_def
        slack_head_lines_def py_str_def)
  show ?thesis
    by (simp add: format_search_api_slack_message_def y g)
qed

text \<open>
  In app.py a \<open>structuredContent\<close> that is not \<open>None\<close> is dumped as JSON text
  whatever its type, and the handler applies the size bound to that text, once, before
  it adds the framing and the query.
\<close>

lemma app_structured_content_dumped:
  assumes "mcp_search_api s query = Inr result"
  shows "app_mcp_search_api_sync dumps dump s query =
     (case structuredContent result of
        None \<Rightarrow> Inr (dump result)
      | Some v \<Rightarrow> if v = PNone then Inr (dump result) else Inr (dumps v))"
  using assms by (simp add: app_mcp_search_api_sync_def getattr_def split: option.splits)

lemma app_handle_jc_command_bounded:
  assumes "user_id b = Some uid" and "uid \<noteq> []" and "uid \<in> admins"
    and "strip (case body_text b of None \<Rightarrow> [] | Some t \<Rightarrow> t) = query" and "query \<noteq> []"
    and "app_mcp_search_api_sync dumps dump s query = Inr raw_json"
  shows "app_handle_jc_command admins dumps dump str_exc s b =
     [ustr ''*Query:* `'' @ query @ ustr ''`'' @ [10] @ ustr ''*search_api result:*'' @ [10] @
      ustr ''```json'' @ [10] @ truncated raw_json MAX_LEN @ [10] @ ustr ''```'']"
    and "\<forall>m \<in> set (app_handle_jc_command admins dumps dump str_exc s b).
      length m \<le> length query + MAX_LEN + length truncation_marker + 45"
  using assms
  by (simp_all add: app_handle_jc_command_def is_admin_def truncated_def)

text \<open>
  C7, as the claim states it, fails in appv1.py: for this request the handler delivers
  the "working" message of 49 characters and then a message of 3059 characters, more
  than the budget of 2800 plus the 16 characters of the marker.
\<close>

theorem slack_message_bound_counterexample:
  "map length
     (slack_handle_jc_command {ustr ''U1''} example_loads no_repr no_dump no_str_exc
        long_session admin_body) = [49, 3059] \<and>
   MAX_LEN + length truncation_marker = 2816"
  by (simp add: slack_handle_jc_command_def admin_body_def is_admin_def strip_list_users
      mcp_search_api_sync_def mcp_search_api_def long_session_def long_envelope_message
      working_msg_def MAX_LEN_def truncation_marker_def Let_def)

text \<open>
  C7, amended. The handler of appv1.py applies no size bound and no marker: for an
  authorised user and a non-empty query, when the call and the message builder return,
  it delivers the "working" message and then the builder's message as it is. The only
  cut is inside the message builder, on the fallback path: the raw dump is cut to its
  first 2700 characters, so the message has the length of the query, plus at most 2700,
  plus 88 characters of framing. On the structured path the message is the query header
  followed by the whole text of the formatter.
\<close>

theorem slack_message_delivered_unbounded:
  "(user_id b = Some uid \<and> uid \<noteq> [] \<and> uid \<in> admins \<and>
    strip (case body_text b of None \<Rightarrow> [] | Some t \<Rightarrow> t) = query \<and> query \<noteq> [] \<and>
    mcp_search_api_sync s query = Inr env \<and>
    format_search_api_slack_message loads repr (dump env) query env = Inr msg \<longrightarrow>
      slack_handle_jc_command admins loads repr dump str_exc s b = [working_msg query, msg]) \<and>
   (extract_inner_json_from_search_api_result loads env_fb = Inr None \<longrightarrow>
      (\<exists>m. format_search_api_slack_message loads repr raw q env_fb = Inr m \<and>
           length m = length q + min (length raw) 2700 + 88) \<and>
      format_search_api_slack_message loads repr raw q env_fb =
        format_search_api_slack_message loads repr (take 2700 raw) q env_fb) \<and>
   (extract_inner_json_from_search_api_result loads env_st = Inr (Some inner) \<and>
    slack_format_search_api_results repr inner = Inr formatted \<longrightarrow>
      format_search_api_slack_message loads repr raw q env_st =
        Inr (ustr ''*Query:* `'' @ q @ ustr ''`'' @ [10, 10] @ formatted))"
  by (auto simp: slack_handle_jc_command_def is_admin_def format_search_api_slack_message_def
      ustr_def min_def)

theorem slack_message_delivered_unbounded_witness:
  "slack_handle_jc_command {ustr ''U1''} example_loads no_repr no_dump no_str_exc
     error_session admin_body =
     [working_msg (ustr ''list users''),
      ustr ''*Query:* `list users`'' @ [10] @
      ustr ''Could not parse structured search_api result, showing raw data:'' @ [10] @
      ustr ''```json'' @ [10] @ replicate 2700 123 @ [10] @ ustr ''```''] \<and>
   format_search_api_slack_message example_loads no_repr (replicate 3000 123) (ustr ''q'')
     error_envelope =
     format_search_api_slack_message example_loads no_repr (take 2700 (replicate 3000 123))
       (ustr ''q'') error_envelope \<and>
   format_search_api_slack_message example_loads no_repr (replicate 3000 123) (ustr ''q'')
     long_envelope =
     Inr (ustr ''*Query:* `q`'' @ [10, 10] @ ustr ''*Explanation:*'' @ [10] @
          replicate 3000 120 @ [10, 10] @ ustr ''_No results found._'')"
proof -
  have x: "extract_inner_json_from_search_api_result example_loads error_envelope = Inr None"
    by (simp add: extract_inner_json_from_search_api_result_def error_envelope_def getattr_def
        example_loads_def ustr_def)
  have f: "format_search_api_slack_message example_loads no_repr (no_dump error_envelope)
      (ustr ''list users'') error_envelope =
     Inr (ustr ''*Query:* `list users`'' @ [10] @
      ustr ''Could not parse structured search_api result, showing raw data:'' @ [10] @
      ustr ''```json'' @ [10] @ replicate 2700 123 @ [10] @ ustr ''```'')"
    by (simp add: format_search_api_slack_message_def x no_dump_def ustr_simps)
  have y: "extract_inner_json_from_search_api_result example_loads long_envelope =
      Inr (Some (PDict [(ustr ''explanation'', PStr (replicate 3000 120))]))"
    by (simp add: extract_inner_json_from_search_api_result_def long_envelope_def getattr_def)
  have g: "slack_format_search_api_results no_repr
      (PDict [(ustr ''explanation'', PStr (replicate 3000 120))]) =
      Inr (ustr ''*Explanation:*'' @ [10] @ replicate 3000 120 @ [10, 10] @
           ustr ''_No results found._'')"
    by (simp add: slack_format_search_api_results_def py_get_def py_or_def
        slack_head_lines_def py_str_def ustr_def)
  have m: "mcp_search_api_sync error_session (ustr ''list users'') = Inr error_envelope"
    by (simp add: error_session_def mcp_search_api_sync_def mcp_search_api_def)
  note T = slack_message_delivered_unbounded [where b = admin_body and uid = "ustr ''U1''"
        and admins = "{ustr ''U1''}" and query = "ustr ''list users''" and s = error_session
        and env = error_envelope and loads = example_loads and repr = no_repr
        and dump = no_dump and str_exc = no_str_exc
        and msg = "ustr ''*Query:* `list users`'' @ [10] @
         ustr ''Could not parse structured search_api result, showing raw data:'' @ [10] @
         ustr ''```json'' @ [10] @ replicate 2700 123 @ [10] @ ustr ''```''"
        and env_fb = error_envelope and raw = "replicate 3000 123" and q = "ustr ''q''"
        and env_st = long_envelope
        and inner = "PDict [(ustr ''explanation'', PStr (replicate 3000 120))]"
        and formatted = "ustr ''*Explanation:*'' @ [10] @ replicate 3000 120 @ [10, 10] @
         ustr ''_No results found._''"]
  have 1: "slack_handle_jc_command {ustr ''U1''} example_loads no_repr no_dump no_str_exc
     error_session admin_body =
     [working_msg (ustr ''list users''),
      ustr ''*Query:* `list users`'' @ [10] @
      ustr ''Could not parse structured search_api result, showing raw data:'' @ [10] @
      ustr ''```json'' @ [10] @ replicate 2700 123 @ [10] @ ustr ''```'']"
    using T m f by (simp add: admin_body_def strip_list_users)
  have 2: "format_search_api_slack_message example_loads no_repr (replicate 3000 123)
      (ustr ''q'') long_envelope =
     Inr (ustr ''*Query:* `'' @ ustr ''q'' @ ustr ''`'' @ [10, 10] @
          (ustr ''*Explanation:*'' @ [10] @ replicate 3000 120 @ [10, 10] @
           ustr ''_No results found._''))"
    using T y g by simp
  have 3: "format_search_api_slack_message example_loads no_repr (replicate 3000 123)
      (ustr ''q'') error_envelope =
     format_search_api_slack_message example_loads no_repr (take 2700 (replicate 3000 123))
       (ustr ''q'') error_envelope"
    using T x by blast
  show ?thesis
    unfolding 1 2 using 3 by (simp add: ustr_simps)
qed

end
